theory Spec2Isabelle
  imports Main "HOL-Library.Sublist"
begin

section \<open>Strings, thrown values and the response envelope\<close>

text \<open>
  Strings of the program are modelled as \<^typ>\<open>string\<close> holding the UTF-8 bytes of the
  source's literals: an ASCII run is written as a literal, every other byte as \<open>CHR 0x..\<close>.
  Concatenation and the contiguous-substring relation \<^const>\<open>sublist\<close> are the same on the
  UTF-8 form as on the source's strings.
\<close>

text \<open>
  A value that a \<open>throw\<close> carries:
  \<^item> \<open>Error m\<close> is the object that \<open>new Error(m)\<close> builds in a handler: an instance of
    \<open>Error\<close> itself, of which the handler sets the message and nothing else;
  \<^item> \<open>Exception type m stack\<close> is an exception raised inside the runtime or a library (the
    \<open>TypeError\<close> of a failed \<open>fetch\<close>, the \<open>SyntaxError\<close> of \<open>json()\<close>, the
    \<open>RangeError\<close> of \<open>Intl\<close>, an error of the inference client): an instance of a subclass
    of \<open>Error\<close>, with the name of its type, its message and its stack trace;
  \<^item> \<open>NotAnError\<close> is any thrown value that is not an instance of \<open>Error\<close>.
  The handlers only ever ask whether a caught value is an instance of \<open>Error\<close> and, if so,
  for its message (\<open>error instanceof Error ? error.message : ...\<close>).
\<close>

datatype thrown =
  Error (message: string)
  | Exception (exception_type: string) (exception_message: string) (stack: string)
  | NotAnError

text \<open>
  One content item of a tool result: \<open>{type: 'text', text}\<close> or
  \<open>{type: 'image', data, mimeType}\<close>.
\<close>

datatype content_item = Text string | Image string string

text \<open>
  What a handler returns: \<open>{content: [...], structuredContent: {content: [...]}}\<close>. The inner
  field of \<open>structuredContent\<close> is \<open>content\<close> in the source; it is \<open>s_content\<close> here.
\<close>

record structured =
  s_content :: "content_item list"

record tool_result =
  content :: "content_item list"
  structuredContent :: structured

section \<open>The JavaScript runtime the handlers call\<close>

text \<open>
  The handlers compute on JavaScript numbers and call built-ins of the runtime (\<open>Number\<close>
  arithmetic and conversion to string, \<open>parseFloat\<close>, \<open>Intl.DateTimeFormat\<close>,
  \<open>Date.prototype.toLocaleDateString\<close>, \<open>Buffer\<close>). None of these is code of the
  repository, so they are parameters of the model: every handler takes the runtime as its first
  argument, and every theorem below holds for all runtimes. \<open>'n\<close> is the type of numbers.
\<close>

text \<open>A leaf of a JSON document as the handlers see it, with \<open>undefined\<close> for an absent one.\<close>

datatype 'n jv = JUndefined | JNull | JBool bool | JNum 'n | JStr string

text \<open>The options object given to \<open>Intl.DateTimeFormat\<close> by the time tool.\<close>

record dtf_options =
  timeZone :: string
  year :: string
  month :: string
  day :: string
  hour :: string
  minute :: string
  second :: string
  hour12 :: bool

text \<open>The options object given to \<open>toLocaleDateString\<close> by the weather tool.\<close>

record date_options =
  ld_month :: string
  ld_day :: string
  ld_weekday :: string

record 'n js_runtime =
  num_add :: "'n \<Rightarrow> 'n \<Rightarrow> 'n"
  num_sub :: "'n \<Rightarrow> 'n \<Rightarrow> 'n"
  num_mul :: "'n \<Rightarrow> 'n \<Rightarrow> 'n"
  num_div :: "'n \<Rightarrow> 'n \<Rightarrow> 'n"
  num_is_zero :: "'n \<Rightarrow> bool"
  num_truthy :: "'n \<Rightarrow> bool"
  num_to_string :: "'n \<Rightarrow> string"
  parse_float :: "string \<Rightarrow> 'n"
  format_now :: "string \<Rightarrow> dtf_options \<Rightarrow> thrown + string"
  to_locale_date_string :: "'n jv \<Rightarrow> string \<Rightarrow> date_options \<Rightarrow> string"
  to_base64 :: "nat list \<Rightarrow> string"
  inherited_property_text :: "string \<Rightarrow> string option"

text \<open>
  \<^item> \<open>num_add\<close>, \<open>num_sub\<close>, \<open>num_mul\<close>, \<open>num_div\<close>: the operators \<open>+ - * /\<close> on numbers;
  \<^item> \<open>num_is_zero x\<close>: \<open>x === 0\<close>; \<open>num_truthy x\<close>: \<open>x\<close> in a boolean position;
  \<^item> \<open>num_to_string x\<close>: \<open>x\<close> in a template literal, and \<open>x.toString()\<close>;
  \<^item> \<open>parse_float s\<close>: \<open>parseFloat(s)\<close> on a string;
  \<^item> \<open>format_now locale opts\<close>: \<open>new Intl.DateTimeFormat(locale, opts).format(new Date())\<close>,
    which may throw;
  \<^item> \<open>to_locale_date_string v locale opts\<close>: \<open>new Date(v).toLocaleDateString(locale, opts)\<close>;
  \<^item> \<open>to_base64 bytes\<close>: \<open>Buffer.from(bytes).toString('base64')\<close>;
  \<^item> \<open>inherited_property_text key\<close>: when \<open>key\<close> names a property that every plain object
    inherits from \<open>Object.prototype\<close> (\<open>constructor\<close>, \<open>toString\<close>, ...), the text that
    the property's value gives in a template literal, and \<open>None\<close> for every other key. The
    inherited values are functions and objects, so each of them is truthy.
\<close>

text \<open>A JSON leaf in a template literal (\<open>ToString\<close>), and in a boolean position.\<close>

fun to_str :: "'n js_runtime \<Rightarrow> 'n jv \<Rightarrow> string" where
  "to_str rt JUndefined = ''undefined''"
| "to_str rt JNull = ''null''"
| "to_str rt (JBool b) = (if b then ''true'' else ''false'')"
| "to_str rt (JNum x) = num_to_string rt x"
| "to_str rt (JStr s) = s"

fun truthy :: "'n js_runtime \<Rightarrow> 'n jv \<Rightarrow> bool" where
  "truthy rt JUndefined = False"
| "truthy rt JNull = False"
| "truthy rt (JBool b) = b"
| "truthy rt (JNum x) = num_truthy rt x"
| "truthy rt (JStr s) = (s \<noteq> [])"

text \<open>\<open>xs[i]\<close> on an array: \<open>undefined\<close> out of range.\<close>

definition element_at :: "'n jv list \<Rightarrow> nat \<Rightarrow> 'n jv" where
  "element_at xs i = (if i < length xs then xs ! i else JUndefined)"

text \<open>
  A non-negative integer in a template literal: its decimal digits. The HTTP status and the
  validated \<open>forecast_days\<close> are such integers.
\<close>

definition digit_char :: "nat \<Rightarrow> char" where
  "digit_char d = char_of (48 + d)"

function nat_to_string :: "nat \<Rightarrow> string" where
  "nat_to_string n =
     (if n < 10 then [digit_char n] else nat_to_string (n div 10) @ [digit_char (n mod 10)])"
  by pat_completeness auto
termination
  by (relation "measure (\<lambda>n. n)") auto

declare nat_to_string.simps [simp del]

text \<open>
  The HTTP exchange. A request is the base URL, the query parameters given to
  \<open>URLSearchParams\<close> and the headers; \<open>fetch\<close> either rejects with a thrown value or
  resolves to a response, whose \<open>json()\<close> in turn either throws or yields the parsed body.
  The upstream is a parameter of each handler: a function from the request to the outcome.
\<close>

record request =
  baseUrl :: string
  params :: "(string \<times> string) list"
  headers :: "(string \<times> string) list"

record 'b response =
  ok :: bool
  status :: nat
  statusText :: string
  json :: "thrown + 'b"

datatype 'b fetch_outcome = Rejected thrown | Resolved "'b response"

text \<open>\<open>error instanceof Error ? error.message : '...'\<close>, in three \<open>catch\<close> blocks.\<close>

text \<open>In English: \<^verbatim>\<open>An unknown error occurred.\<close>\<close>

definition unknown_error_message :: string where
  "unknown_error_message = [CHR 0xEC, CHR 0x95, CHR 0x8C] @ '' '' @ [CHR 0xEC, CHR 0x88,
     CHR 0x98] @ '' '' @ [CHR 0xEC, CHR 0x97, CHR 0x86, CHR 0xEB, CHR 0x8A, CHR 0x94] @ '' ''
     @ [CHR 0xEC, CHR 0x98, CHR 0xA4, CHR 0xEB, CHR 0xA5, CHR 0x98, CHR 0xEA, CHR 0xB0,
     CHR 0x80] @ '' '' @ [CHR 0xEB, CHR 0xB0, CHR 0x9C, CHR 0xEC, CHR 0x83, CHR 0x9D, CHR 0xED,
     CHR 0x96, CHR 0x88, CHR 0xEC, CHR 0x8A, CHR 0xB5, CHR 0xEB, CHR 0x8B, CHR 0x88, CHR 0xEB,
     CHR 0x8B, CHR 0xA4] @ ''.''"

fun errorMessage :: "thrown \<Rightarrow> string" where
  "errorMessage (Error m) = m"
| "errorMessage (Exception t m s) = m"
| "errorMessage NotAnError = unknown_error_message"

section \<open>greet (lines 20-66)\<close>

datatype language = Ko | En

text \<open>In English: \<^verbatim>\<open>Hello, \<close>\<close>

definition greeting_ko_prefix :: string where
  "greeting_ko_prefix = [CHR 0xEC, CHR 0x95, CHR 0x88, CHR 0xEB, CHR 0x85, CHR 0x95, CHR 0xED,
     CHR 0x95, CHR 0x98, CHR 0xEC, CHR 0x84, CHR 0xB8, CHR 0xEC, CHR 0x9A, CHR 0x94] @ '', ''"

text \<open>In English: \<^verbatim>\<open>-nim! (the honorific suffix, then an exclamation mark)\<close>\<close>

definition greeting_ko_suffix :: string where
  "greeting_ko_suffix = [CHR 0xEB, CHR 0x8B, CHR 0x98] @ ''!''"

definition greeting_en_prefix :: string where
  "greeting_en_prefix = ''Hey there, ''"

text \<open>In English: \<^verbatim>\<open>! (waving hand, U+1F44B) Nice to meet you!\<close>\<close>

definition greeting_en_suffix :: string where
  "greeting_en_suffix = ''! '' @ [CHR 0xF0, CHR 0x9F, CHR 0x91, CHR 0x8B]
     @ '' Nice to meet you!''"

text \<open>The handler receives \<open>language\<close> after the schema's default \<open>'en'\<close> has been applied.\<close>

definition greet :: "string \<Rightarrow> language \<Rightarrow> tool_result" where
  "greet name language =
     (let greeting = (if language = Ko then greeting_ko_prefix @ name @ greeting_ko_suffix
                      else greeting_en_prefix @ name @ greeting_en_suffix)
      in \<lparr>content = [Text greeting], structuredContent = \<lparr>s_content = [Text greeting]\<rparr>\<rparr>)"

section \<open>calculator (lines 68-130)\<close>

datatype operator = Plus | Minus | Times | Divide

fun operator_text :: "operator \<Rightarrow> string" where
  "operator_text Plus = ''+''"
| "operator_text Minus = ''-''"
| "operator_text Times = ''*''"
| "operator_text Divide = ''/''"

text \<open>In English: \<^verbatim>\<open>Cannot divide by zero.\<close>\<close>

definition division_by_zero_message :: string where
  "division_by_zero_message = ''0'' @ [CHR 0xEC, CHR 0x9C, CHR 0xBC, CHR 0xEB, CHR 0xA1,
     CHR 0x9C] @ '' '' @ [CHR 0xEB, CHR 0x82, CHR 0x98, CHR 0xEB, CHR 0x88, CHR 0x8C] @ '' ''
     @ [CHR 0xEC, CHR 0x88, CHR 0x98] @ '' '' @ [CHR 0xEC, CHR 0x97, CHR 0x86, CHR 0xEC,
     CHR 0x8A, CHR 0xB5, CHR 0xEB, CHR 0x8B, CHR 0x88, CHR 0xEB, CHR 0x8B, CHR 0xA4] @ ''.''"

text \<open>The \<open>switch\<close> of the handler (lines 93-109): the result, or the thrown error.\<close>

fun calculate :: "'n js_runtime \<Rightarrow> 'n \<Rightarrow> 'n \<Rightarrow> operator \<Rightarrow> thrown + 'n" where
  "calculate rt number1 number2 Plus = Inr (num_add rt number1 number2)"
| "calculate rt number1 number2 Minus = Inr (num_sub rt number1 number2)"
| "calculate rt number1 number2 Times = Inr (num_mul rt number1 number2)"
| "calculate rt number1 number2 Divide =
     (if num_is_zero rt number2 then Inl (Error division_by_zero_message)
      else Inr (num_div rt number1 number2))"

definition calculator :: "'n js_runtime \<Rightarrow> 'n \<Rightarrow> 'n \<Rightarrow> operator \<Rightarrow> thrown + tool_result" where
  "calculator rt number1 number2 operator =
     (case calculate rt number1 number2 operator of
        Inl e \<Rightarrow> Inl e
      | Inr result \<Rightarrow>
          (let resultText = num_to_string rt number1 @ '' '' @ operator_text operator @ '' ''
                 @ num_to_string rt number2 @ '' = '' @ num_to_string rt result
           in Inr \<lparr>content = [Text resultText],
                   structuredContent = \<lparr>s_content = [Text resultText]\<rparr>\<rparr>))"

section \<open>time (lines 132-189)\<close>

text \<open>In English: \<^verbatim>\<open>'s current time: \<close>\<close>

definition current_time_label :: string where
  "current_time_label = [CHR 0xEC, CHR 0x9D, CHR 0x98] @ '' '' @ [CHR 0xED, CHR 0x98, CHR 0x84,
     CHR 0xEC, CHR 0x9E, CHR 0xAC] @ '' '' @ [CHR 0xEC, CHR 0x8B, CHR 0x9C, CHR 0xEA, CHR 0xB0,
     CHR 0x84] @ '': ''"

text \<open>In English: \<^verbatim>\<open>Invalid timezone: \<close>\<close>

definition invalid_timezone_message :: string where
  "invalid_timezone_message = [CHR 0xEC, CHR 0x9C, CHR 0xA0, CHR 0xED, CHR 0x9A, CHR 0xA8,
     CHR 0xED, CHR 0x95, CHR 0x98, CHR 0xEC, CHR 0xA7, CHR 0x80] @ '' '' @ [CHR 0xEC, CHR 0x95,
     CHR 0x8A, CHR 0xEC, CHR 0x9D, CHR 0x80] @ '' '' @ [CHR 0xED, CHR 0x83, CHR 0x80, CHR 0xEC,
     CHR 0x9E, CHR 0x84, CHR 0xEC, CHR 0xA1, CHR 0xB4, CHR 0xEC, CHR 0x9E, CHR 0x85, CHR 0xEB,
     CHR 0x8B, CHR 0x88, CHR 0xEB, CHR 0x8B, CHR 0xA4] @ '': ''"

text \<open>
  Everything in the \<open>try\<close> block that can throw is the runtime's formatter; the \<open>catch\<close>
  discards what was thrown and throws an error naming the timezone.
\<close>

definition time_options :: "string \<Rightarrow> dtf_options" where
  "time_options timezone =
     \<lparr>timeZone = timezone, year = ''numeric'', month = ''2-digit'', day = ''2-digit'',
      hour = ''2-digit'', minute = ''2-digit'', second = ''2-digit'', hour12 = False\<rparr>"

definition time :: "'n js_runtime \<Rightarrow> string \<Rightarrow> thrown + tool_result" where
  "time rt timezone =
     (case format_now rt ''ko-KR'' (time_options timezone) of
        Inl error \<Rightarrow> Inl (Error (invalid_timezone_message @ timezone))
      | Inr formattedTime \<Rightarrow>
          (let resultText = timezone @ current_time_label @ formattedTime
           in Inr \<lparr>content = [Text resultText],
                   structuredContent = \<lparr>s_content = [Text resultText]\<rparr>\<rparr>))"

section \<open>geocode (lines 191-284)\<close>

text \<open>
  The body of a successful search response: \<open>null\<close>, or an array of places. A place is an
  object whose fields \<open>lat\<close>, \<open>lon\<close> and \<open>display_name\<close> are JSON leaves, \<open>JUndefined\<close>
  when the field is absent. Bodies of another shape are outside the model.
\<close>

record 'n place =
  lat :: "'n jv"
  lon :: "'n jv"
  display_name :: "'n jv"

text \<open>In English: \<^verbatim>\<open>API request failed: \<close>\<close>

definition api_request_failed :: string where
  "api_request_failed = ''API '' @ [CHR 0xEC, CHR 0x9A, CHR 0x94, CHR 0xEC, CHR 0xB2, CHR 0xAD]
     @ '' '' @ [CHR 0xEC, CHR 0x8B, CHR 0xA4, CHR 0xED, CHR 0x8C, CHR 0xA8] @ '': ''"

text \<open>In English: \<^verbatim>\<open>(the quoted query, then:) no search results could be found.\<close>\<close>

definition no_results_message :: string where
  "no_results_message = [CHR 0xEC, CHR 0x97, CHR 0x90] @ '' '' @ [CHR 0xEB, CHR 0x8C, CHR 0x80,
     CHR 0xED, CHR 0x95, CHR 0x9C] @ '' '' @ [CHR 0xEA, CHR 0xB2, CHR 0x80, CHR 0xEC, CHR 0x83,
     CHR 0x89] @ '' '' @ [CHR 0xEA, CHR 0xB2, CHR 0xB0, CHR 0xEA, CHR 0xB3, CHR 0xBC, CHR 0xEB,
     CHR 0xA5, CHR 0xBC] @ '' '' @ [CHR 0xEC, CHR 0xB0, CHR 0xBE, CHR 0xEC, CHR 0x9D, CHR 0x84]
     @ '' '' @ [CHR 0xEC, CHR 0x88, CHR 0x98] @ '' '' @ [CHR 0xEC, CHR 0x97, CHR 0x86, CHR 0xEC,
     CHR 0x8A, CHR 0xB5, CHR 0xEB, CHR 0x8B, CHR 0x88, CHR 0xEB, CHR 0x8B, CHR 0xA4] @ ''.''"

text \<open>In English: \<^verbatim>\<open>Address: \<close>\<close>

definition address_label :: string where
  "address_label = [CHR 0xEC, CHR 0xA3, CHR 0xBC, CHR 0xEC, CHR 0x86, CHR 0x8C] @ '': ''"

text \<open>In English: \<^verbatim>\<open>Latitude: \<close>\<close>

definition latitude_label :: string where
  "latitude_label = [CHR 0xEC, CHR 0x9C, CHR 0x84, CHR 0xEB, CHR 0x8F, CHR 0x84] @ '': ''"

text \<open>In English: \<^verbatim>\<open>Longitude: \<close>\<close>

definition longitude_label :: string where
  "longitude_label = [CHR 0xEA, CHR 0xB2, CHR 0xBD, CHR 0xEB, CHR 0x8F, CHR 0x84] @ '': ''"

text \<open>In English: \<^verbatim>\<open>Coordinates: (\<close>\<close>

definition coordinates_label :: string where
  "coordinates_label = [CHR 0xEC, CHR 0xA2, CHR 0x8C, CHR 0xED, CHR 0x91, CHR 0x9C] @ '': (''"

text \<open>In English: \<^verbatim>\<open>Geocoding failed: \<close>\<close>

definition geocoding_failed :: string where
  "geocoding_failed = [CHR 0xEC, CHR 0xA7, CHR 0x80, CHR 0xEC, CHR 0x98, CHR 0xA4, CHR 0xEC,
     CHR 0xBD, CHR 0x94, CHR 0xEB, CHR 0x94, CHR 0xA9] @ '' '' @ [CHR 0xEC, CHR 0x8B, CHR 0xA4,
     CHR 0xED, CHR 0x8C, CHR 0xA8] @ '': ''"

definition no_results :: "string \<Rightarrow> tool_result" where
  "no_results query =
     \<lparr>content = [Text ([CHR 0x22] @ query @ [CHR 0x22] @ no_results_message)],
      structuredContent =
        \<lparr>s_content = [Text ([CHR 0x22] @ query @ [CHR 0x22] @ no_results_message)]\<rparr>\<rparr>"

text \<open>The request of lines 214-229.\<close>

definition geocode_request :: "string \<Rightarrow> request" where
  "geocode_request query =
     \<lparr>baseUrl = ''https://nominatim.openstreetmap.org/search'',
      params = [(''q'', query), (''format'', ''json''), (''limit'', ''1''),
                (''addressdetails'', ''1'')],
      headers = [(''User-Agent'', ''MCP-Geocode-Tool/1.0'')]\<rparr>"

text \<open>The \<open>try\<close> block (lines 213-278).\<close>

definition geocode_try ::
  "'n js_runtime \<Rightarrow> (request \<Rightarrow> 'n place list option fetch_outcome) \<Rightarrow> string
     \<Rightarrow> thrown + tool_result" where
  "geocode_try rt fetch query =
     (case fetch (geocode_request query) of
        Rejected e \<Rightarrow> Inl e
      | Resolved response \<Rightarrow>
          if \<not> ok response
          then Inl (Error (api_request_failed @ nat_to_string (status response) @ '' ''
                             @ statusText response))
          else (case json response of
                  Inl e \<Rightarrow> Inl e
                | Inr None \<Rightarrow> Inr (no_results query)
                | Inr (Some []) \<Rightarrow> Inr (no_results query)
                | Inr (Some (result # rest)) \<Rightarrow>
                    (let lat = parse_float rt (to_str rt (lat result));
                         lon = parse_float rt (to_str rt (lon result));
                         displayName = (if truthy rt (display_name result)
                                        then to_str rt (display_name result) else query);
                         resultText = address_label @ displayName @ [CHR 0x0A]
                           @ latitude_label @ num_to_string rt lat @ [CHR 0x0A]
                           @ longitude_label @ num_to_string rt lon @ [CHR 0x0A]
                           @ coordinates_label @ num_to_string rt lat @ '', ''
                           @ num_to_string rt lon @ '')''
                     in Inr \<lparr>content = [Text resultText],
                             structuredContent = \<lparr>s_content = [Text resultText]\<rparr>\<rparr>)))"

text \<open>The handler: the \<open>try\<close> block under its \<open>catch\<close> (lines 279-282).\<close>

definition geocode ::
  "'n js_runtime \<Rightarrow> (request \<Rightarrow> 'n place list option fetch_outcome) \<Rightarrow> string
     \<Rightarrow> thrown + tool_result" where
  "geocode rt fetch query =
     (case geocode_try rt fetch query of
        Inl error \<Rightarrow> Inl (Error (geocoding_failed @ errorMessage error))
      | Inr r \<Rightarrow> Inr r)"

section \<open>get-weather (lines 286-453)\<close>

text \<open>
  The body of a successful forecast response: an object with the fields \<open>error\<close> and
  \<open>reason\<close> (JSON leaves, here \<open>w_error\<close> and \<open>w_reason\<close>), \<open>hourly\<close> and
  \<open>daily\<close> (objects, here \<open>w_hourly\<close> and \<open>w_daily\<close>, \<open>None\<close> when absent or
  \<open>null\<close>), whose own fields are arrays of JSON leaves (\<open>None\<close> when absent or \<open>null\<close>).
  Bodies of another shape are outside the model.
\<close>

record 'n hourly_data =
  h_time :: "'n jv list option"
  h_temperature_2m :: "'n jv list option"
  h_relative_humidity_2m :: "'n jv list option"
  h_wind_speed_10m :: "'n jv list option"
  h_weather_code :: "'n jv list option"

record 'n daily_data =
  d_time :: "'n jv list option"
  d_temperature_2m_max :: "'n jv list option"
  d_temperature_2m_min :: "'n jv list option"
  d_precipitation_sum :: "'n jv list option"
  d_weather_code :: "'n jv list option"

record 'n forecast_data =
  w_error :: "'n jv"
  w_reason :: "'n jv"
  w_hourly :: "'n hourly_data option"
  w_daily :: "'n daily_data option"

text \<open>
  The table of \<open>getWeatherDescription\<close> (lines 341-370). The keys of a JavaScript object are
  strings: a code is looked up under its string form. The table is a plain object, so a key
  that it does not have itself is looked up in \<open>Object.prototype\<close>; what is found there is
  truthy and is returned, and the template literal of the caller prints it.
\<close>

definition weatherCodes :: "(string \<times> string) list" where
  "weatherCodes =
    [(''0'', [CHR 0xEB, CHR 0xA7, CHR 0x91, CHR 0xEC, CHR 0x9D, CHR 0x8C]),
     (''1'', [CHR 0xEB, CHR 0x8C, CHR 0x80, CHR 0xEC, CHR 0xB2, CHR 0xB4, CHR 0xEB, CHR 0xA1,
        CHR 0x9C] @ '' '' @ [CHR 0xEB, CHR 0xA7, CHR 0x91, CHR 0xEC, CHR 0x9D, CHR 0x8C]),
     (''2'', [CHR 0xEB, CHR 0xB6, CHR 0x80, CHR 0xEB, CHR 0xB6, CHR 0x84, CHR 0xEC, CHR 0xA0,
        CHR 0x81, CHR 0xEC, CHR 0x9C, CHR 0xBC, CHR 0xEB, CHR 0xA1, CHR 0x9C] @ '' ''
        @ [CHR 0xED, CHR 0x9D, CHR 0x90, CHR 0xEB, CHR 0xA6, CHR 0xBC]),
     (''3'', [CHR 0xED, CHR 0x9D, CHR 0x90, CHR 0xEB, CHR 0xA6, CHR 0xBC]),
     (''45'', [CHR 0xEC, CHR 0x95, CHR 0x88, CHR 0xEA, CHR 0xB0, CHR 0x9C]),
     (''48'', [CHR 0xEC, CHR 0x84, CHR 0x9C, CHR 0xEB, CHR 0xA6, CHR 0xAC] @ '' '' @ [CHR 0xEC,
        CHR 0x95, CHR 0x88, CHR 0xEA, CHR 0xB0, CHR 0x9C]),
     (''51'', [CHR 0xEC, CHR 0x95, CHR 0xBD, CHR 0xED, CHR 0x95, CHR 0x9C] @ '' '' @ [CHR 0xEC,
        CHR 0x9D, CHR 0xB4, CHR 0xEC, CHR 0x8A, CHR 0xAC, CHR 0xEB, CHR 0xB9, CHR 0x84]),
     (''53'', [CHR 0xEC, CHR 0xA4, CHR 0x91, CHR 0xEA, CHR 0xB0, CHR 0x84] @ '' '' @ [CHR 0xEC,
        CHR 0x9D, CHR 0xB4, CHR 0xEC, CHR 0x8A, CHR 0xAC, CHR 0xEB, CHR 0xB9, CHR 0x84]),
     (''55'', [CHR 0xEA, CHR 0xB0, CHR 0x95, CHR 0xED, CHR 0x95, CHR 0x9C] @ '' '' @ [CHR 0xEC,
        CHR 0x9D, CHR 0xB4, CHR 0xEC, CHR 0x8A, CHR 0xAC, CHR 0xEB, CHR 0xB9, CHR 0x84]),
     (''56'', [CHR 0xEC, CHR 0x95, CHR 0xBD, CHR 0xED, CHR 0x95, CHR 0x9C] @ '' '' @ [CHR 0xEB,
        CHR 0x8F, CHR 0x99, CHR 0xEA, CHR 0xB2, CHR 0xB0] @ '' '' @ [CHR 0xEC, CHR 0x9D,
        CHR 0xB4, CHR 0xEC, CHR 0x8A, CHR 0xAC, CHR 0xEB, CHR 0xB9, CHR 0x84]),
     (''57'', [CHR 0xEA, CHR 0xB0, CHR 0x95, CHR 0xED, CHR 0x95, CHR 0x9C] @ '' '' @ [CHR 0xEB,
        CHR 0x8F, CHR 0x99, CHR 0xEA, CHR 0xB2, CHR 0xB0] @ '' '' @ [CHR 0xEC, CHR 0x9D,
        CHR 0xB4, CHR 0xEC, CHR 0x8A, CHR 0xAC, CHR 0xEB, CHR 0xB9, CHR 0x84]),
     (''61'', [CHR 0xEC, CHR 0x95, CHR 0xBD, CHR 0xED, CHR 0x95, CHR 0x9C] @ '' '' @ [CHR 0xEB,
        CHR 0xB9, CHR 0x84]),
     (''63'', [CHR 0xEC, CHR 0xA4, CHR 0x91, CHR 0xEA, CHR 0xB0, CHR 0x84] @ '' '' @ [CHR 0xEB,
        CHR 0xB9, CHR 0x84]),
     (''65'', [CHR 0xEA, CHR 0xB0, CHR 0x95, CHR 0xED, CHR 0x95, CHR 0x9C] @ '' '' @ [CHR 0xEB,
        CHR 0xB9, CHR 0x84]),
     (''66'', [CHR 0xEC, CHR 0x95, CHR 0xBD, CHR 0xED, CHR 0x95, CHR 0x9C] @ '' '' @ [CHR 0xEB,
        CHR 0x8F, CHR 0x99, CHR 0xEA, CHR 0xB2, CHR 0xB0] @ '' '' @ [CHR 0xEB, CHR 0xB9,
        CHR 0x84]),
     (''67'', [CHR 0xEA, CHR 0xB0, CHR 0x95, CHR 0xED, CHR 0x95, CHR 0x9C] @ '' '' @ [CHR 0xEB,
        CHR 0x8F, CHR 0x99, CHR 0xEA, CHR 0xB2, CHR 0xB0] @ '' '' @ [CHR 0xEB, CHR 0xB9,
        CHR 0x84]),
     (''71'', [CHR 0xEC, CHR 0x95, CHR 0xBD, CHR 0xED, CHR 0x95, CHR 0x9C] @ '' '' @ [CHR 0xEB,
        CHR 0x88, CHR 0x88]),
     (''73'', [CHR 0xEC, CHR 0xA4, CHR 0x91, CHR 0xEA, CHR 0xB0, CHR 0x84] @ '' '' @ [CHR 0xEB,
        CHR 0x88, CHR 0x88]),
     (''75'', [CHR 0xEA, CHR 0xB0, CHR 0x95, CHR 0xED, CHR 0x95, CHR 0x9C] @ '' '' @ [CHR 0xEB,
        CHR 0x88, CHR 0x88]),
     (''77'', [CHR 0xEB, CHR 0x88, CHR 0x88, CHR 0xEC, CHR 0x95, CHR 0x8C, CHR 0xEA, CHR 0xB0,
        CHR 0xB1, CHR 0xEC, CHR 0x9D, CHR 0xB4]),
     (''80'', [CHR 0xEC, CHR 0x95, CHR 0xBD, CHR 0xED, CHR 0x95, CHR 0x9C] @ '' '' @ [CHR 0xEC,
        CHR 0x86, CHR 0x8C, CHR 0xEB, CHR 0x82, CHR 0x98, CHR 0xEA, CHR 0xB8, CHR 0xB0]),
     (''81'', [CHR 0xEC, CHR 0xA4, CHR 0x91, CHR 0xEA, CHR 0xB0, CHR 0x84] @ '' '' @ [CHR 0xEC,
        CHR 0x86, CHR 0x8C, CHR 0xEB, CHR 0x82, CHR 0x98, CHR 0xEA, CHR 0xB8, CHR 0xB0]),
     (''82'', [CHR 0xEA, CHR 0xB0, CHR 0x95, CHR 0xED, CHR 0x95, CHR 0x9C] @ '' '' @ [CHR 0xEC,
        CHR 0x86, CHR 0x8C, CHR 0xEB, CHR 0x82, CHR 0x98, CHR 0xEA, CHR 0xB8, CHR 0xB0]),
     (''85'', [CHR 0xEC, CHR 0x95, CHR 0xBD, CHR 0xED, CHR 0x95, CHR 0x9C] @ '' '' @ [CHR 0xEB,
        CHR 0x88, CHR 0x88] @ '' '' @ [CHR 0xEC, CHR 0x86, CHR 0x8C, CHR 0xEB, CHR 0x82,
        CHR 0x98, CHR 0xEA, CHR 0xB8, CHR 0xB0]),
     (''86'', [CHR 0xEA, CHR 0xB0, CHR 0x95, CHR 0xED, CHR 0x95, CHR 0x9C] @ '' '' @ [CHR 0xEB,
        CHR 0x88, CHR 0x88] @ '' '' @ [CHR 0xEC, CHR 0x86, CHR 0x8C, CHR 0xEB, CHR 0x82,
        CHR 0x98, CHR 0xEA, CHR 0xB8, CHR 0xB0]),
     (''95'', [CHR 0xEB, CHR 0x87, CHR 0x8C, CHR 0xEC, CHR 0x9A, CHR 0xB0]),
     (''96'', [CHR 0xEC, CHR 0x9A, CHR 0xB0, CHR 0xEB, CHR 0xB0, CHR 0x95, CHR 0xEC, CHR 0x9D,
        CHR 0x84] @ '' '' @ [CHR 0xEB, CHR 0x8F, CHR 0x99, CHR 0xEB, CHR 0xB0, CHR 0x98,
        CHR 0xED, CHR 0x95, CHR 0x9C] @ '' '' @ [CHR 0xEB, CHR 0x87, CHR 0x8C, CHR 0xEC,
        CHR 0x9A, CHR 0xB0]),
     (''99'', [CHR 0xEA, CHR 0xB0, CHR 0x95, CHR 0xED, CHR 0x95, CHR 0x9C] @ '' '' @ [CHR 0xEC,
        CHR 0x9A, CHR 0xB0, CHR 0xEB, CHR 0xB0, CHR 0x95, CHR 0xEC, CHR 0x9D, CHR 0x84] @ '' ''
        @ [CHR 0xEB, CHR 0x8F, CHR 0x99, CHR 0xEB, CHR 0xB0, CHR 0x98, CHR 0xED, CHR 0x95,
        CHR 0x9C] @ '' '' @ [CHR 0xEB, CHR 0x87, CHR 0x8C, CHR 0xEC, CHR 0x9A, CHR 0xB0])]"

text \<open>In English: \<^verbatim>\<open>Weather code: \<close>\<close>

definition weather_code_label :: string where
  "weather_code_label = [CHR 0xEB, CHR 0x82, CHR 0xA0, CHR 0xEC, CHR 0x94, CHR 0xA8] @ '' ''
     @ [CHR 0xEC, CHR 0xBD, CHR 0x94, CHR 0xEB, CHR 0x93, CHR 0x9C] @ '': ''"

definition getWeatherDescription :: "'n js_runtime \<Rightarrow> 'n jv \<Rightarrow> string" where
  "getWeatherDescription rt code =
     (case map_of weatherCodes (to_str rt code) of
        Some description \<Rightarrow>
          if description \<noteq> [] then description else weather_code_label @ to_str rt code
      | None \<Rightarrow>
          (case inherited_property_text rt (to_str rt code) of
             Some inherited \<Rightarrow> inherited
           | None \<Rightarrow> weather_code_label @ to_str rt code))"

text \<open>In English: \<^verbatim>\<open>now\<close>\<close>

definition now_label :: string where
  "now_label = [CHR 0xED, CHR 0x98, CHR 0x84, CHR 0xEC, CHR 0x9E, CHR 0xAC]"

text \<open>In English: \<^verbatim>\<open>(pin, U+1F4CD) Location: latitude \<close>\<close>

definition location_label :: string where
  "location_label = [CHR 0xF0, CHR 0x9F, CHR 0x93, CHR 0x8D] @ '' '' @ [CHR 0xEC, CHR 0x9C,
     CHR 0x84, CHR 0xEC, CHR 0xB9, CHR 0x98] @ '': '' @ [CHR 0xEC, CHR 0x9C, CHR 0x84, CHR 0xEB,
     CHR 0x8F, CHR 0x84] @ '' ''"

text \<open>In English: \<^verbatim>\<open>, longitude \<close>\<close>

definition location_longitude_label :: string where
  "location_longitude_label = '', '' @ [CHR 0xEA, CHR 0xB2, CHR 0xBD, CHR 0xEB, CHR 0x8F,
     CHR 0x84] @ '' ''"

text \<open>In English: \<^verbatim>\<open>(alarm clock, U+23F0) Forecast period: \<close>\<close>

definition forecast_period_label :: string where
  "forecast_period_label = [CHR 0xE2, CHR 0x8F, CHR 0xB0] @ '' '' @ [CHR 0xEC, CHR 0x98,
     CHR 0x88, CHR 0xEB, CHR 0xB3, CHR 0xB4] @ '' '' @ [CHR 0xEA, CHR 0xB8, CHR 0xB0, CHR 0xEA,
     CHR 0xB0, CHR 0x84] @ '': ''"

text \<open>In English: \<^verbatim>\<open>days\<close>\<close>

definition days_suffix :: string where
  "days_suffix = [CHR 0xEC, CHR 0x9D, CHR 0xBC]"

text \<open>In English: \<^verbatim>\<open>(sun behind cloud, U+1F324 U+FE0F) Current weather (\<close>\<close>

definition current_weather_label :: string where
  "current_weather_label = [CHR 0xF0, CHR 0x9F, CHR 0x8C, CHR 0xA4, CHR 0xEF, CHR 0xB8,
     CHR 0x8F] @ '' '' @ [CHR 0xED, CHR 0x98, CHR 0x84, CHR 0xEC, CHR 0x9E, CHR 0xAC] @ '' ''
     @ [CHR 0xEB, CHR 0x82, CHR 0xA0, CHR 0xEC, CHR 0x94, CHR 0xA8] @ '' (''"

text \<open>In English: \<^verbatim>\<open>(forty heavy horizontal lines, U+2501, and a line feed)\<close>\<close>

definition rule_line :: string where
  "rule_line = [CHR 0xE2, CHR 0x94, CHR 0x81, CHR 0xE2, CHR 0x94, CHR 0x81, CHR 0xE2, CHR 0x94,
     CHR 0x81, CHR 0xE2, CHR 0x94, CHR 0x81, CHR 0xE2, CHR 0x94, CHR 0x81, CHR 0xE2, CHR 0x94,
     CHR 0x81, CHR 0xE2, CHR 0x94, CHR 0x81, CHR 0xE2, CHR 0x94, CHR 0x81, CHR 0xE2, CHR 0x94,
     CHR 0x81, CHR 0xE2, CHR 0x94, CHR 0x81, CHR 0xE2, CHR 0x94, CHR 0x81, CHR 0xE2, CHR 0x94,
     CHR 0x81, CHR 0xE2, CHR 0x94, CHR 0x81, CHR 0xE2, CHR 0x94, CHR 0x81, CHR 0xE2, CHR 0x94,
     CHR 0x81, CHR 0xE2, CHR 0x94, CHR 0x81, CHR 0xE2, CHR 0x94, CHR 0x81, CHR 0xE2, CHR 0x94,
     CHR 0x81, CHR 0xE2, CHR 0x94, CHR 0x81, CHR 0xE2, CHR 0x94, CHR 0x81, CHR 0xE2, CHR 0x94,
     CHR 0x81, CHR 0xE2, CHR 0x94, CHR 0x81, CHR 0xE2, CHR 0x94, CHR 0x81, CHR 0xE2, CHR 0x94,
     CHR 0x81, CHR 0xE2, CHR 0x94, CHR 0x81, CHR 0xE2, CHR 0x94, CHR 0x81, CHR 0xE2, CHR 0x94,
     CHR 0x81, CHR 0xE2, CHR 0x94, CHR 0x81, CHR 0xE2, CHR 0x94, CHR 0x81, CHR 0xE2, CHR 0x94,
     CHR 0x81, CHR 0xE2, CHR 0x94, CHR 0x81, CHR 0xE2, CHR 0x94, CHR 0x81, CHR 0xE2, CHR 0x94,
     CHR 0x81, CHR 0xE2, CHR 0x94, CHR 0x81, CHR 0xE2, CHR 0x94, CHR 0x81, CHR 0xE2, CHR 0x94,
     CHR 0x81, CHR 0xE2, CHR 0x94, CHR 0x81, CHR 0xE2, CHR 0x94, CHR 0x81, CHR 0xE2, CHR 0x94,
     CHR 0x81, CHR 0xE2, CHR 0x94, CHR 0x81, CHR 0x0A]"

text \<open>In English: \<^verbatim>\<open>Temperature: \<close>\<close>

definition temperature_label :: string where
  "temperature_label = [CHR 0xEC, CHR 0x98, CHR 0xA8, CHR 0xEB, CHR 0x8F, CHR 0x84] @ '': ''"

text \<open>In English: \<^verbatim>\<open>(degree sign, U+00B0) C\<close>\<close>

definition degrees_celsius :: string where
  "degrees_celsius = [CHR 0xC2, CHR 0xB0] @ ''C''"

text \<open>In English: \<^verbatim>\<open>Humidity: \<close>\<close>

definition humidity_label :: string where
  "humidity_label = [CHR 0xEC, CHR 0x8A, CHR 0xB5, CHR 0xEB, CHR 0x8F, CHR 0x84] @ '': ''"

text \<open>In English: \<^verbatim>\<open>Wind speed: \<close>\<close>

definition wind_speed_label :: string where
  "wind_speed_label = [CHR 0xED, CHR 0x92, CHR 0x8D, CHR 0xEC, CHR 0x86, CHR 0x8D] @ '': ''"

text \<open>In English: \<^verbatim>\<open>Weather: \<close>\<close>

definition weather_label :: string where
  "weather_label = [CHR 0xEB, CHR 0x82, CHR 0xA0, CHR 0xEC, CHR 0x94, CHR 0xA8] @ '': ''"

text \<open>In English: \<^verbatim>\<open>(calendar, U+1F4C5, and a space)\<close>\<close>

definition daily_forecast_label :: string where
  "daily_forecast_label = [CHR 0xF0, CHR 0x9F, CHR 0x93, CHR 0x85] @ '' ''"

text \<open>In English: \<^verbatim>\<open>-day forecast (and a line feed)\<close>\<close>

definition daily_forecast_suffix :: string where
  "daily_forecast_suffix = [CHR 0xEC, CHR 0x9D, CHR 0xBC] @ '' '' @ [CHR 0xEC, CHR 0x98,
     CHR 0x88, CHR 0xEB, CHR 0xB3, CHR 0xB4, CHR 0x0A]"

text \<open>In English: \<^verbatim>\<open>  High: \<close>\<close>

definition max_label :: string where
  "max_label = ''  '' @ [CHR 0xEC, CHR 0xB5, CHR 0x9C, CHR 0xEA, CHR 0xB3, CHR 0xA0] @ '': ''"

text \<open>In English: \<^verbatim>\<open> | Low: \<close>\<close>

definition min_label :: string where
  "min_label = '' | '' @ [CHR 0xEC, CHR 0xB5, CHR 0x9C, CHR 0xEC, CHR 0xA0, CHR 0x80] @ '': ''"

text \<open>In English: \<^verbatim>\<open>  Precipitation: \<close>\<close>

definition precipitation_label :: string where
  "precipitation_label = ''  '' @ [CHR 0xEA, CHR 0xB0, CHR 0x95, CHR 0xEC, CHR 0x88, CHR 0x98,
     CHR 0xEB, CHR 0x9F, CHR 0x89] @ '': ''"

text \<open>In English: \<^verbatim>\<open>Weather lookup failed: \<close>\<close>

definition weather_failed :: string where
  "weather_failed = [CHR 0xEB, CHR 0x82, CHR 0xA0, CHR 0xEC, CHR 0x94, CHR 0xA8] @ '' ''
     @ [CHR 0xEC, CHR 0xA0, CHR 0x95, CHR 0xEB, CHR 0xB3, CHR 0xB4] @ '' '' @ [CHR 0xEC,
     CHR 0xA1, CHR 0xB0, CHR 0xED, CHR 0x9A, CHR 0x8C] @ '' '' @ [CHR 0xEC, CHR 0x8B, CHR 0xA4,
     CHR 0xED, CHR 0x8C, CHR 0xA8] @ '': ''"

text \<open>\<open>hourly?.field?.[0]\<close>: the first sample of an hourly array, \<open>undefined\<close> without one.\<close>

definition first_sample ::
  "'n hourly_data option \<Rightarrow> ('n hourly_data \<Rightarrow> 'n jv list option) \<Rightarrow> 'n jv" where
  "first_sample hourly field =
     (case hourly of
        None \<Rightarrow> JUndefined
      | Some h \<Rightarrow> (case field h of None \<Rightarrow> JUndefined | Some xs \<Rightarrow> element_at xs 0))"

text \<open>\<open>array || []\<close>.\<close>

definition or_empty :: "'a list option \<Rightarrow> 'a list" where
  "or_empty xs = (case xs of None \<Rightarrow> [] | Some ys \<Rightarrow> ys)"

text \<open>The text built for the current conditions (lines 375-400).\<close>

definition current_weather ::
  "'n js_runtime \<Rightarrow> 'n \<Rightarrow> 'n \<Rightarrow> nat \<Rightarrow> 'n hourly_data option \<Rightarrow> string" where
  "current_weather rt latitude longitude forecast_days hourly =
     (let currentTime = (if truthy rt (first_sample hourly h_time)
                         then to_str rt (first_sample hourly h_time) else now_label);
          currentTemp = first_sample hourly h_temperature_2m;
          currentHumidity = first_sample hourly h_relative_humidity_2m;
          currentWindSpeed = first_sample hourly h_wind_speed_10m;
          currentWeatherCode = first_sample hourly h_weather_code
      in location_label @ num_to_string rt latitude @ location_longitude_label
           @ num_to_string rt longitude @ [CHR 0x0A]
         @ forecast_period_label @ nat_to_string forecast_days @ days_suffix
           @ [CHR 0x0A, CHR 0x0A]
         @ current_weather_label @ currentTime @ '')'' @ [CHR 0x0A]
         @ rule_line
         @ (if currentTemp \<noteq> JUndefined
            then temperature_label @ to_str rt currentTemp @ degrees_celsius @ [CHR 0x0A]
            else [])
         @ (if currentHumidity \<noteq> JUndefined
            then humidity_label @ to_str rt currentHumidity @ ''%'' @ [CHR 0x0A] else [])
         @ (if currentWindSpeed \<noteq> JUndefined
            then wind_speed_label @ to_str rt currentWindSpeed @ '' km/h'' @ [CHR 0x0A]
            else [])
         @ (if currentWeatherCode \<noteq> JUndefined
            then weather_label @ getWeatherDescription rt currentWeatherCode @ [CHR 0x0A]
            else [])
         @ [CHR 0x0A])"

text \<open>
  What one pass of the \<open>for\<close> loop appends for day \<open>i\<close> (lines 414-428), \<open>bound\<close> being
  \<open>Math.min(forecast_days, daily.time.length)\<close>.
\<close>

definition day_block ::
  "'n js_runtime \<Rightarrow> 'n jv list \<Rightarrow> 'n jv list \<Rightarrow> 'n jv list \<Rightarrow> 'n jv list \<Rightarrow> 'n jv list
     \<Rightarrow> nat \<Rightarrow> nat \<Rightarrow> string" where
  "day_block rt dayTimes maxTemps minTemps precipitations codes bound i =
     (let dateStr = to_locale_date_string rt (element_at dayTimes i) ''ko-KR''
                      \<lparr>ld_month = ''short'', ld_day = ''numeric'', ld_weekday = ''short''\<rparr>
      in dateStr @ [CHR 0x0A]
         @ max_label @ to_str rt (element_at maxTemps i) @ degrees_celsius
           @ min_label @ to_str rt (element_at minTemps i) @ degrees_celsius @ [CHR 0x0A]
         @ precipitation_label @ to_str rt (element_at precipitations i) @ ''mm'' @ [CHR 0x0A]
         @ ''  '' @ weather_label @ getWeatherDescription rt (element_at codes i) @ [CHR 0x0A]
         @ (if int i < int bound - 1 then [CHR 0x0A] else []))"

text \<open>The \<open>for\<close> loop (line 413): \<open>i\<close> is the counter, \<open>resultText\<close> the text so far.\<close>

function daily_loop ::
  "'n js_runtime \<Rightarrow> nat \<Rightarrow> 'n jv list \<Rightarrow> 'n jv list \<Rightarrow> 'n jv list \<Rightarrow> 'n jv list \<Rightarrow> 'n jv list
     \<Rightarrow> nat \<Rightarrow> string \<Rightarrow> string" where
  "daily_loop rt forecast_days dayTimes maxTemps minTemps precipitations codes i resultText =
     (if i < min forecast_days (length dayTimes)
      then daily_loop rt forecast_days dayTimes maxTemps minTemps precipitations codes (Suc i)
             (resultText @ day_block rt dayTimes maxTemps minTemps precipitations codes
                             (min forecast_days (length dayTimes)) i)
      else resultText)"
  by pat_completeness auto
termination
  by (relation "measure (\<lambda>(rt, forecast_days, dayTimes, maxTemps, minTemps, precipitations,
                            codes, i, resultText). min forecast_days (length dayTimes) - i)") auto

declare daily_loop.simps [simp del]

text \<open>The daily part (lines 403-430), from the text so far to the text after it.\<close>

definition daily_forecast ::
  "'n js_runtime \<Rightarrow> nat \<Rightarrow> 'n daily_data option \<Rightarrow> string \<Rightarrow> string" where
  "daily_forecast rt forecast_days daily resultText =
     (case daily of
        None \<Rightarrow> resultText
      | Some d \<Rightarrow>
          (case d_time d of
             None \<Rightarrow> resultText
           | Some dayTimes \<Rightarrow>
               daily_loop rt forecast_days dayTimes
                 (or_empty (d_temperature_2m_max d)) (or_empty (d_temperature_2m_min d))
                 (or_empty (d_precipitation_sum d)) (or_empty (d_weather_code d)) 0
                 (resultText @ daily_forecast_label @ nat_to_string forecast_days
                    @ daily_forecast_suffix @ rule_line)))"

text \<open>The request of lines 316-327; \<open>fetch\<close> is called with the URL alone.\<close>

definition weather_request :: "'n js_runtime \<Rightarrow> 'n \<Rightarrow> 'n \<Rightarrow> nat \<Rightarrow> request" where
  "weather_request rt latitude longitude forecast_days =
     \<lparr>baseUrl = ''https://api.open-meteo.com/v1/forecast'',
      params = [(''latitude'', num_to_string rt latitude),
                (''longitude'', num_to_string rt longitude),
                (''forecast_days'', nat_to_string forecast_days),
                (''hourly'', ''temperature_2m,relative_humidity_2m,precipitation,weather_code,wind_speed_10m''),
                (''daily'', ''temperature_2m_max,temperature_2m_min,precipitation_sum,weather_code''),
                (''timezone'', ''auto'')],
      headers = []\<rparr>"

text \<open>The default of the parameter \<open>forecast_days = 7\<close> (line 313).\<close>

definition forecast_days_or_default :: "nat option \<Rightarrow> nat" where
  "forecast_days_or_default forecast_days_arg =
     (case forecast_days_arg of None \<Rightarrow> 7 | Some d \<Rightarrow> d)"

text \<open>The \<open>try\<close> block (lines 315-447).\<close>

definition get_weather_try ::
  "'n js_runtime \<Rightarrow> (request \<Rightarrow> 'n forecast_data fetch_outcome) \<Rightarrow> 'n \<Rightarrow> 'n \<Rightarrow> nat option
     \<Rightarrow> thrown + tool_result" where
  "get_weather_try rt fetch latitude longitude forecast_days_arg =
     (let forecast_days = forecast_days_or_default forecast_days_arg
      in case fetch (weather_request rt latitude longitude forecast_days) of
           Rejected e \<Rightarrow> Inl e
         | Resolved response \<Rightarrow>
             if \<not> ok response
             then Inl (Error (api_request_failed @ nat_to_string (status response) @ '' ''
                                @ statusText response))
             else (case json response of
                     Inl e \<Rightarrow> Inl e
                   | Inr data \<Rightarrow>
                       if truthy rt (w_error data)
                       then Inl (Error (if truthy rt (w_reason data) then to_str rt (w_reason data)
                                        else unknown_error_message))
                       else (let resultText =
                                   daily_forecast rt forecast_days (w_daily data)
                                     (current_weather rt latitude longitude forecast_days
                                        (w_hourly data))
                             in Inr \<lparr>content = [Text resultText],
                                     structuredContent = \<lparr>s_content = [Text resultText]\<rparr>\<rparr>)))"

definition get_weather ::
  "'n js_runtime \<Rightarrow> (request \<Rightarrow> 'n forecast_data fetch_outcome) \<Rightarrow> 'n \<Rightarrow> 'n \<Rightarrow> nat option
     \<Rightarrow> thrown + tool_result" where
  "get_weather rt fetch latitude longitude forecast_days_arg =
     (case get_weather_try rt fetch latitude longitude forecast_days_arg of
        Inl error \<Rightarrow> Inl (Error (weather_failed @ errorMessage error))
      | Inr r \<Rightarrow> Inr r)"

section \<open>generate-image (lines 455-526)\<close>

text \<open>
  The process configuration: \<open>config?.HF_TOKEN\<close>, here \<open>hfToken_of config\<close>, is
  \<open>undefined\<close> when the configuration or the token is absent; \<open>!hfToken\<close> holds then, and
  for the empty string.
\<close>

record config =
  HF_TOKEN :: "string option"

text \<open>The request to the inference provider, and the calls the handler makes, in order.\<close>

record text_to_image_args =
  provider :: string
  model :: string
  inputs :: string
  num_inference_steps :: nat
  outputType :: string

datatype effect = NewInferenceClient string | TextToImage text_to_image_args

text \<open>In English: \<^verbatim>\<open>HF_TOKEN is not set. Set a Hugging Face token to use image generation.\<close>\<close>

definition missing_token_message :: string where
  "missing_token_message = ''HF_TOKEN'' @ [CHR 0xEC, CHR 0x9D, CHR 0xB4] @ '' '' @ [CHR 0xEC,
     CHR 0x84, CHR 0xA4, CHR 0xEC, CHR 0xA0, CHR 0x95, CHR 0xEB, CHR 0x90, CHR 0x98, CHR 0xEC,
     CHR 0xA7, CHR 0x80] @ '' '' @ [CHR 0xEC, CHR 0x95, CHR 0x8A, CHR 0xEC, CHR 0x95, CHR 0x98,
     CHR 0xEC, CHR 0x8A, CHR 0xB5, CHR 0xEB, CHR 0x8B, CHR 0x88, CHR 0xEB, CHR 0x8B, CHR 0xA4]
     @ ''. '' @ [CHR 0xEC, CHR 0x9D, CHR 0xB4, CHR 0xEB, CHR 0xAF, CHR 0xB8, CHR 0xEC, CHR 0xA7,
     CHR 0x80] @ '' '' @ [CHR 0xEC, CHR 0x83, CHR 0x9D, CHR 0xEC, CHR 0x84, CHR 0xB1, CHR 0xEC,
     CHR 0x9D, CHR 0x84] @ '' '' @ [CHR 0xEC, CHR 0x82, CHR 0xAC, CHR 0xEC, CHR 0x9A, CHR 0xA9,
     CHR 0xED, CHR 0x95, CHR 0x98, CHR 0xEB, CHR 0xA0, CHR 0xA4, CHR 0xEB, CHR 0xA9, CHR 0xB4]
     @ '' Hugging Face '' @ [CHR 0xED, CHR 0x86, CHR 0xA0, CHR 0xED, CHR 0x81, CHR 0xB0,
     CHR 0xEC, CHR 0x9D, CHR 0x84] @ '' '' @ [CHR 0xEC, CHR 0x84, CHR 0xA4, CHR 0xEC, CHR 0xA0,
     CHR 0x95, CHR 0xED, CHR 0x95, CHR 0xB4, CHR 0xEC, CHR 0xA3, CHR 0xBC, CHR 0xEC, CHR 0x84,
     CHR 0xB8, CHR 0xEC, CHR 0x9A, CHR 0x94] @ ''.''"

text \<open>In English: \<^verbatim>\<open>Image generation failed: \<close>\<close>

definition image_generation_failed :: string where
  "image_generation_failed = [CHR 0xEC, CHR 0x9D, CHR 0xB4, CHR 0xEB, CHR 0xAF, CHR 0xB8,
     CHR 0xEC, CHR 0xA7, CHR 0x80] @ '' '' @ [CHR 0xEC, CHR 0x83, CHR 0x9D, CHR 0xEC, CHR 0x84,
     CHR 0xB1] @ '' '' @ [CHR 0xEC, CHR 0x8B, CHR 0xA4, CHR 0xED, CHR 0x8C, CHR 0xA8] @ '': ''"

text \<open>
  The \<open>try\<close> block (lines 476-520). The provider is a parameter: from the token and the
  request to the bytes of the image, or to what it throws. The second component of the result
  is the trace of calls made.
\<close>

definition hfToken_of :: "config option \<Rightarrow> string option" where
  "hfToken_of config = (case config of None \<Rightarrow> None | Some c \<Rightarrow> HF_TOKEN c)"

definition text_to_image_call :: "string \<Rightarrow> text_to_image_args" where
  "text_to_image_call prompt =
     \<lparr>provider = ''auto'', model = ''black-forest-labs/FLUX.1-schnell'', inputs = prompt,
      num_inference_steps = 5, outputType = ''blob''\<rparr>"

definition generate_image_try ::
  "'n js_runtime \<Rightarrow> (string \<Rightarrow> text_to_image_args \<Rightarrow> thrown + nat list) \<Rightarrow> config option
     \<Rightarrow> string \<Rightarrow> (thrown + tool_result) \<times> effect list" where
  "generate_image_try rt textToImage config prompt =
     (let hfToken = hfToken_of config
      in case hfToken of
           None \<Rightarrow> (Inl (Error missing_token_message), [])
         | Some token \<Rightarrow>
             if token = [] then (Inl (Error missing_token_message), [])
             else (let args = text_to_image_call prompt;
                       trace = [NewInferenceClient token, TextToImage args]
                   in case textToImage token args of
                        Inl e \<Rightarrow> (Inl e, trace)
                      | Inr bytes \<Rightarrow>
                          (let base64Image = to_base64 rt bytes
                           in (Inr \<lparr>content = [Image base64Image ''image/png''],
                                    structuredContent =
                                      \<lparr>s_content = [Image base64Image ''image/png'']\<rparr>\<rparr>,
                               trace))))"

definition generate_image ::
  "'n js_runtime \<Rightarrow> (string \<Rightarrow> text_to_image_args \<Rightarrow> thrown + nat list) \<Rightarrow> config option
     \<Rightarrow> string \<Rightarrow> (thrown + tool_result) \<times> effect list" where
  "generate_image rt textToImage config prompt =
     (case generate_image_try rt textToImage config prompt of
        (Inl error, trace) \<Rightarrow> (Inl (Error (image_generation_failed @ errorMessage error)), trace)
      | (Inr r, trace) \<Rightarrow> (Inr r, trace))"

section \<open>server-info (lines 528-646)\<close>

text \<open>
  The input contract of a tool is a \<open>zod\<close> object schema. A field's schema is built by a
  chain of calls such as \<open>z.number().int().min(1).max(16).optional().default(7)\<close>; the model
  keeps what the chain declares. \<open>describe\<close> only attaches a text and is left out.
\<close>

datatype zod_kind = ZString | ZNumber | ZEnum "string list"

datatype literal = LStr string | LNum int

record zod_schema =
  kind :: zod_kind
  is_int :: bool
  minimum :: "int option"
  maximum :: "int option"
  is_optional :: bool
  default_value :: "literal option"

definition z_string :: zod_schema where
  "z_string = \<lparr>kind = ZString, is_int = False, minimum = None, maximum = None,
               is_optional = False, default_value = None\<rparr>"

definition z_number :: zod_schema where
  "z_number = \<lparr>kind = ZNumber, is_int = False, minimum = None, maximum = None,
               is_optional = False, default_value = None\<rparr>"

definition z_enum :: "string list \<Rightarrow> zod_schema" where
  "z_enum values = \<lparr>kind = ZEnum values, is_int = False, minimum = None, maximum = None,
                    is_optional = False, default_value = None\<rparr>"

definition z_int :: "zod_schema \<Rightarrow> zod_schema" where
  "z_int s = s\<lparr>is_int := True\<rparr>"

definition z_min :: "int \<Rightarrow> zod_schema \<Rightarrow> zod_schema" where
  "z_min n s = s\<lparr>minimum := Some n\<rparr>"

definition z_max :: "int \<Rightarrow> zod_schema \<Rightarrow> zod_schema" where
  "z_max n s = s\<lparr>maximum := Some n\<rparr>"

definition z_optional :: "zod_schema \<Rightarrow> zod_schema" where
  "z_optional s = s\<lparr>is_optional := True\<rparr>"

definition z_default :: "literal \<Rightarrow> zod_schema \<Rightarrow> zod_schema" where
  "z_default v s = s\<lparr>default_value := Some v\<rparr>"

text \<open>The \<open>inputSchema\<close> of each \<open>registerTool\<close> call, and the calls in their order.\<close>

definition greet_inputSchema :: "(string \<times> zod_schema) list" where
  "greet_inputSchema =
     [(''name'', z_string),
      (''language'', z_default (LStr ''en'') (z_optional (z_enum [''ko'', ''en''])))]"

definition calculator_inputSchema :: "(string \<times> zod_schema) list" where
  "calculator_inputSchema =
     [(''number1'', z_number),
      (''number2'', z_number),
      (''operator'', z_enum [''+'', ''-'', ''*'', ''/''])]"

definition time_inputSchema :: "(string \<times> zod_schema) list" where
  "time_inputSchema = [(''timezone'', z_string)]"

definition geocode_inputSchema :: "(string \<times> zod_schema) list" where
  "geocode_inputSchema = [(''query'', z_string)]"

definition get_weather_inputSchema :: "(string \<times> zod_schema) list" where
  "get_weather_inputSchema =
     [(''latitude'', z_number),
      (''longitude'', z_number),
      (''forecast_days'',
         z_default (LNum 7) (z_optional (z_max 16 (z_min 1 (z_int z_number)))))]"

definition generate_image_inputSchema :: "(string \<times> zod_schema) list" where
  "generate_image_inputSchema = [(''prompt'', z_string)]"

definition registered_tools :: "(string \<times> (string \<times> zod_schema) list) list" where
  "registered_tools =
     [(''greet'', greet_inputSchema),
      (''calculator'', calculator_inputSchema),
      (''time'', time_inputSchema),
      (''geocode'', geocode_inputSchema),
      (''get-weather'', get_weather_inputSchema),
      (''generate-image'', generate_image_inputSchema)]"

text \<open>
  The document of the resource. An entry of \<open>parameters\<close> is an object literal with the key
  \<open>type\<close> and, where the source writes them, \<open>enum\<close>, \<open>optional\<close>, \<open>default\<close>, \<open>min\<close>
  and \<open>max\<close>; a key the source does not write is \<open>None\<close>. The \<open>description\<close> texts are
  left out, as in the contracts.
\<close>

record parameter_info =
  p_type :: string
  p_enum :: "string list option"
  p_optional :: "bool option"
  p_default :: "literal option"
  p_min :: "int option"
  p_max :: "int option"

record tool_info =
  t_name :: string
  t_parameters :: "(string \<times> parameter_info) list"

record server_info =
  si_name :: string
  si_version :: string
  si_timestamp :: string
  si_tools :: "tool_info list"
  si_totalTools :: nat

text \<open>\<open>{type: t}\<close> with no other key.\<close>

definition of_type :: "string \<Rightarrow> parameter_info" where
  "of_type t = \<lparr>p_type = t, p_enum = None, p_optional = None, p_default = None,
                p_min = None, p_max = None\<rparr>"

text \<open>The object built at lines 539-634; \<open>timestamp\<close> is \<open>new Date().toISOString()\<close>.\<close>

definition serverInfo :: "string \<Rightarrow> server_info" where
  "serverInfo timestamp =
     \<lparr>si_name = ''mcp-server-251215'',
      si_version = ''1.0.0'',
      si_timestamp = timestamp,
      si_tools =
        [\<lparr>t_name = ''greet'',
          t_parameters =
            [(''name'', of_type ''string''),
             (''language'', (of_type ''string'')
                \<lparr>p_enum := Some [''ko'', ''en''], p_optional := Some True,
                 p_default := Some (LStr ''en'')\<rparr>)]\<rparr>,
         \<lparr>t_name = ''calculator'',
          t_parameters =
            [(''number1'', of_type ''number''),
             (''number2'', of_type ''number''),
             (''operator'', (of_type ''string'')\<lparr>p_enum := Some [''+'', ''-'', ''*'', ''/'']\<rparr>)]\<rparr>,
         \<lparr>t_name = ''time'',
          t_parameters = [(''timezone'', of_type ''string'')]\<rparr>,
         \<lparr>t_name = ''geocode'',
          t_parameters = [(''query'', of_type ''string'')]\<rparr>,
         \<lparr>t_name = ''get-weather'',
          t_parameters =
            [(''latitude'', of_type ''number''),
             (''longitude'', of_type ''number''),
             (''forecast_days'', (of_type ''number'')
                \<lparr>p_optional := Some True, p_default := Some (LNum 7),
                 p_min := Some 1, p_max := Some 16\<rparr>)]\<rparr>,
         \<lparr>t_name = ''generate-image'',
          t_parameters = [(''prompt'', of_type ''string'')]\<rparr>],
      si_totalTools = 6\<rparr>"

section \<open>Notions used to state the properties\<close>

text \<open>
  The arithmetic that the operator names, without the guard of the handler.
\<close>

fun named_operation :: "'n js_runtime \<Rightarrow> operator \<Rightarrow> 'n \<Rightarrow> 'n \<Rightarrow> 'n" where
  "named_operation rt Plus a b = num_add rt a b"
| "named_operation rt Minus a b = num_sub rt a b"
| "named_operation rt Times a b = num_mul rt a b"
| "named_operation rt Divide a b = num_div rt a b"

text \<open>
  A failure message of the structure \<open><operation> failed: <cause>\<close>: in the language of
  the program's messages the word is the one the three prefixes \<open>geocoding_failed\<close>,
  \<open>weather_failed\<close> and \<open>image_generation_failed\<close> share. The weaker
  \<open>has_colon_separator\<close> asks only for some prefix, then a colon and a space, then a cause.
\<close>

definition failed_colon :: string where
  "failed_colon = [CHR 0xEC, CHR 0x8B, CHR 0xA4, CHR 0xED, CHR 0x8C, CHR 0xA8] @ '': ''"

definition operation_failed_structure :: "string \<Rightarrow> bool" where
  "operation_failed_structure msg = sublist failed_colon msg"

definition has_colon_separator :: "string \<Rightarrow> bool" where
  "has_colon_separator msg = sublist '': '' msg"


text \<open>The number of places of a text at which a marker starts.\<close>

fun occurrences :: "string \<Rightarrow> string \<Rightarrow> nat" where
  "occurrences marker [] = 0"
| "occurrences marker (c # cs) =
     (if prefix marker (c # cs) then 1 else 0) + occurrences marker cs"

definition is_digit :: "char \<Rightarrow> bool" where
  "is_digit c = (c \<in> set ''0123456789'')"

text \<open>
  The heading of the daily part, and the per-day blocks of a forecast of \<open>forecast_days\<close>
  days over the daily data \<open>d\<close>, one for each index below
  \<open>min forecast_days (length daily.time)\<close>.
\<close>

definition daily_heading :: "nat \<Rightarrow> string" where
  "daily_heading forecast_days =
     daily_forecast_label @ nat_to_string forecast_days @ daily_forecast_suffix @ rule_line"

definition day_blocks :: "'n js_runtime \<Rightarrow> nat \<Rightarrow> 'n daily_data \<Rightarrow> string list" where
  "day_blocks rt forecast_days d =
     map (day_block rt (or_empty (d_time d)) (or_empty (d_temperature_2m_max d))
            (or_empty (d_temperature_2m_min d)) (or_empty (d_precipitation_sum d))
            (or_empty (d_weather_code d)) (min forecast_days (length (or_empty (d_time d)))))
       [0 ..< min forecast_days (length (or_empty (d_time d)))]"

text \<open>
  What a field's contract declares and what its entry in the listing advertises, as lists of
  constraints. The listing has no key for the integer constraint.
\<close>

datatype constraint =
  HasType string | HasEnum "string list" | IsOptional | HasDefault literal
  | HasMin int | HasMax int | IsInteger

definition contract_constraints :: "zod_schema \<Rightarrow> constraint list" where
  "contract_constraints s =
     (case kind s of
        ZString \<Rightarrow> [HasType ''string'']
      | ZNumber \<Rightarrow> [HasType ''number'']
      | ZEnum values \<Rightarrow> [HasType ''string'', HasEnum values])
     @ (if is_int s then [IsInteger] else [])
     @ (case minimum s of None \<Rightarrow> [] | Some n \<Rightarrow> [HasMin n])
     @ (case maximum s of None \<Rightarrow> [] | Some n \<Rightarrow> [HasMax n])
     @ (if is_optional s then [IsOptional] else [])
     @ (case default_value s of None \<Rightarrow> [] | Some v \<Rightarrow> [HasDefault v])"

definition listing_constraints :: "parameter_info \<Rightarrow> constraint list" where
  "listing_constraints p =
     [HasType (p_type p)]
     @ (case p_enum p of None \<Rightarrow> [] | Some values \<Rightarrow> [HasEnum values])
     @ (case p_min p of None \<Rightarrow> [] | Some n \<Rightarrow> [HasMin n])
     @ (case p_max p of None \<Rightarrow> [] | Some n \<Rightarrow> [HasMax n])
     @ (if p_optional p = Some True then [IsOptional] else [])
     @ (case p_default p of None \<Rightarrow> [] | Some v \<Rightarrow> [HasDefault v])"

text \<open>
  The constraints of a contract that its listing lacks, and those of a listing that its
  contract lacks, field by field and tool by tool. A tool or field without a counterpart of
  the same name at the same position is reported whole.
\<close>

datatype drift = Missing string string constraint | Extra string string constraint
  | Unpaired string

fun field_drift ::
  "string \<Rightarrow> (string \<times> zod_schema) list \<Rightarrow> (string \<times> parameter_info) list \<Rightarrow> drift list" where
  "field_drift tool [] [] = []"
| "field_drift tool ((f, s) # fs) ((g, p) # ps) =
     (if f = g
      then map (Missing tool f)
             (filter (\<lambda>c. c \<notin> set (listing_constraints p)) (contract_constraints s))
           @ map (Extra tool f)
               (filter (\<lambda>c. c \<notin> set (contract_constraints s)) (listing_constraints p))
      else [Unpaired tool])
     @ field_drift tool fs ps"
| "field_drift tool _ _ = [Unpaired tool]"

fun tool_drift ::
  "(string \<times> (string \<times> zod_schema) list) list \<Rightarrow> tool_info list \<Rightarrow> drift list" where
  "tool_drift [] [] = []"
| "tool_drift ((n, schema) # ts) (info # infos) =
     (if n = t_name info then field_drift n schema (t_parameters info) else [Unpaired n])
     @ tool_drift ts infos"
| "tool_drift _ _ = [Unpaired ''tools'']"

section \<open>A small runtime for running the handlers on concrete inputs\<close>

text \<open>
  The theorems below hold for every runtime. To run a handler on a concrete input one runtime
  is needed; this one computes on decimal numbers \<open>m / 10 ^ s\<close>, written \<open>Dec m s\<close>. Its
  sums, differences and products are exact, its quotient is exact when it is a decimal of at
  most twenty places, and it prints and reads plain decimal notation. On such values it agrees
  with JavaScript as long as they are exact in double precision and below \<open>10 ^ 21\<close>; every
  other number is \<open>Other\<close>. Its clock, its calendar and its time zones are a fixed sample.
\<close>

datatype decimal = Dec int nat | NaN | Other

fun normalize :: "int \<Rightarrow> nat \<Rightarrow> decimal" where
  "normalize m 0 = Dec m 0"
| "normalize m (Suc s) = (if m mod 10 = 0 then normalize (m div 10) s else Dec m (Suc s))"

fun dec_add :: "decimal \<Rightarrow> decimal \<Rightarrow> decimal" where
  "dec_add (Dec a s) (Dec b t) = normalize (a * 10 ^ t + b * 10 ^ s) (s + t)"
| "dec_add NaN _ = NaN"
| "dec_add _ NaN = NaN"
| "dec_add _ _ = Other"

fun dec_sub :: "decimal \<Rightarrow> decimal \<Rightarrow> decimal" where
  "dec_sub (Dec a s) (Dec b t) = normalize (a * 10 ^ t - b * 10 ^ s) (s + t)"
| "dec_sub NaN _ = NaN"
| "dec_sub _ NaN = NaN"
| "dec_sub _ _ = Other"

fun dec_mul :: "decimal \<Rightarrow> decimal \<Rightarrow> decimal" where
  "dec_mul (Dec a s) (Dec b t) = normalize (a * b) (s + t)"
| "dec_mul NaN _ = NaN"
| "dec_mul _ NaN = NaN"
| "dec_mul _ _ = Other"

text \<open>\<open>quotient n d k fuel\<close>: \<open>n / d\<close> with \<open>k\<close> places so far, at most \<open>fuel\<close> more.\<close>

fun quotient :: "int \<Rightarrow> int \<Rightarrow> nat \<Rightarrow> nat \<Rightarrow> decimal" where
  "quotient n d k 0 = (if n mod d = 0 then normalize (n div d) k else Other)"
| "quotient n d k (Suc fuel) =
     (if n mod d = 0 then normalize (n div d) k else quotient (n * 10) d (Suc k) fuel)"

fun dec_div :: "decimal \<Rightarrow> decimal \<Rightarrow> decimal" where
  "dec_div (Dec a s) (Dec b t) =
     (if b = 0 then (if a = 0 then NaN else Other)
      else if b < 0 then quotient (- (a * 10 ^ t)) (- (b * 10 ^ s)) 0 20
      else quotient (a * 10 ^ t) (b * 10 ^ s) 0 20)"
| "dec_div NaN _ = NaN"
| "dec_div _ NaN = NaN"
| "dec_div _ _ = Other"

fun dec_is_zero :: "decimal \<Rightarrow> bool" where
  "dec_is_zero (Dec m s) = (m = 0)"
| "dec_is_zero _ = False"

fun dec_truthy :: "decimal \<Rightarrow> bool" where
  "dec_truthy (Dec m s) = (m \<noteq> 0)"
| "dec_truthy NaN = False"
| "dec_truthy Other = True"

text \<open>\<open>places s r\<close>: the \<open>s\<close> digits after the point, \<open>r\<close> being their value.\<close>

definition places :: "nat \<Rightarrow> nat \<Rightarrow> string" where
  "places s r = replicate (s - length (nat_to_string r)) (CHR ''0'') @ nat_to_string r"

fun dec_to_string :: "decimal \<Rightarrow> string" where
  "dec_to_string (Dec m s) =
     (if m < 0 then ''-'' else [])
     @ nat_to_string (nat \<bar>m\<bar> div 10 ^ s)
     @ (if s = 0 then [] else ''.'' @ places s (nat \<bar>m\<bar> mod 10 ^ s))"
| "dec_to_string NaN = ''NaN''"
| "dec_to_string Other = ''Other''"

definition digits_value :: "string \<Rightarrow> nat" where
  "digits_value ds = foldl (\<lambda>acc c. 10 * acc + (of_char c - 48)) 0 ds"

text \<open>
  Reads an optional sign, digits, and an optional point with digits, from the start of the
  text; \<open>NaN\<close> when there is no digit.
\<close>

definition dec_parse :: "string \<Rightarrow> decimal" where
  "dec_parse s =
     (let negative = (s \<noteq> [] \<and> hd s = CHR ''-'');
          unsigned = (if negative then tl s else s);
          whole = takeWhile is_digit unsigned;
          after = dropWhile is_digit unsigned;
          fraction = (if after \<noteq> [] \<and> hd after = CHR ''.''
                      then takeWhile is_digit (tl after) else [])
      in if whole = [] \<and> fraction = [] then NaN
         else normalize ((if negative then - 1 else 1) * int (digits_value (whole @ fraction)))
                (length fraction))"

text \<open>Base64 with the standard alphabet and padding.\<close>

definition base64_char :: "nat \<Rightarrow> char" where
  "base64_char n =
     (''ABCDEFGHIJKLMNOPQRSTUVWXYZabcdefghijklmnopqrstuvwxyz0123456789+/'') ! n"

fun base64 :: "nat list \<Rightarrow> string" where
  "base64 (a # b # c # rest) =
     [base64_char (a div 4), base64_char ((a mod 4) * 16 + b div 16),
      base64_char ((b mod 16) * 4 + c div 64), base64_char (c mod 64)] @ base64 rest"
| "base64 [a, b] =
     [base64_char (a div 4), base64_char ((a mod 4) * 16 + b div 16),
      base64_char ((b mod 16) * 4), CHR ''='']"
| "base64 [a] = [base64_char (a div 4), base64_char ((a mod 4) * 16), CHR ''='', CHR ''='']"
| "base64 [] = []"

text \<open>
  The sample clock stands at 2025-12-15 00:30:05 UTC and knows two time zones; the sample
  calendar knows three days. The texts they return are fixed samples: what a real runtime
  prints for the locale \<open>ko-KR\<close> is decided by its locale data, which is not part of the
  program, and no theorem below depends on the shape of these texts. The same holds for the
  texts of the inherited properties and for the types and stack traces of the exceptions that
  the sample runtime and the sample upstreams throw.
\<close>

definition sample_format_now :: "string \<Rightarrow> dtf_options \<Rightarrow> thrown + string" where
  "sample_format_now locale options =
     (if timeZone options = ''UTC'' then Inr ''2025. 12. 15. 00:30:05''
      else if timeZone options = ''Asia/Seoul'' then Inr ''2025. 12. 15. 09:30:05''
      else Inl (Exception ''RangeError'' (''Invalid time zone specified: '' @ timeZone options)
                  ''RangeError: Invalid time zone specified at new DateTimeFormat''))"

definition sample_to_locale_date_string ::
  "decimal jv \<Rightarrow> string \<Rightarrow> date_options \<Rightarrow> string" where
  "sample_to_locale_date_string v locale options =
     (if v = JStr ''2025-12-15'' then ''12'' @ [CHR 0xEC, CHR 0x9B, CHR 0x94] @ '' 15'' @ [CHR 0xEC, CHR 0x9D, CHR 0xBC] @ '' ('' @ [CHR 0xEC, CHR 0x9B, CHR 0x94] @ '')''
      else if v = JStr ''2025-12-16'' then ''12'' @ [CHR 0xEC, CHR 0x9B, CHR 0x94] @ '' 16'' @ [CHR 0xEC, CHR 0x9D, CHR 0xBC] @ '' ('' @ [CHR 0xED, CHR 0x99, CHR 0x94] @ '')''
      else if v = JStr ''2025-12-17'' then ''12'' @ [CHR 0xEC, CHR 0x9B, CHR 0x94] @ '' 17'' @ [CHR 0xEC, CHR 0x9D, CHR 0xBC] @ '' ('' @ [CHR 0xEC, CHR 0x88, CHR 0x98] @ '')''
      else ''Invalid Date'')"

definition sample_inherited_property_text :: "string \<Rightarrow> string option" where
  "sample_inherited_property_text key =
     (if key = ''constructor'' then Some ''function Object() { [native code] }''
      else if key = ''__proto__'' then Some ''[object Object]''
      else if key \<in> set [''toString'', ''toLocaleString'', ''valueOf'', ''hasOwnProperty'',
                         ''isPrototypeOf'', ''propertyIsEnumerable'', ''__defineGetter__'',
                         ''__defineSetter__'', ''__lookupGetter__'', ''__lookupSetter__'']
      then Some (''function '' @ key @ ''() { [native code] }'')
      else None)"

definition sample_runtime :: "decimal js_runtime" where
  "sample_runtime =
     \<lparr>num_add = dec_add, num_sub = dec_sub, num_mul = dec_mul, num_div = dec_div,
      num_is_zero = dec_is_zero, num_truthy = dec_truthy, num_to_string = dec_to_string,
      parse_float = dec_parse, format_now = sample_format_now,
      to_locale_date_string = sample_to_locale_date_string, to_base64 = base64,
      inherited_property_text = sample_inherited_property_text\<rparr>"

text \<open>
  Sample upstreams. The search service knows one place, finds nothing for \<open>Atlantis\<close>,
  returns a place without a name for \<open>Nowhere\<close> and answers 503 otherwise. The forecast
  service returns ten days, or cannot be reached. The inference provider accepts one token.
\<close>

definition sample_search :: "request \<Rightarrow> decimal place list option fetch_outcome" where
  "sample_search req =
     (if map_of (params req) ''q'' = Some ''Seoul''
      then Resolved \<lparr>ok = True, status = 200, statusText = ''OK'',
             json = Inr (Some [\<lparr>lat = JStr ''37.5'', lon = JStr ''127.0'',
                                 display_name = JStr ''Seoul''\<rparr>])\<rparr>
      else if map_of (params req) ''q'' = Some ''Atlantis''
      then Resolved \<lparr>ok = True, status = 200, statusText = ''OK'', json = Inr (Some [])\<rparr>
      else if map_of (params req) ''q'' = Some ''Nowhere''
      then Resolved \<lparr>ok = True, status = 200, statusText = ''OK'',
             json = Inr (Some [\<lparr>lat = JStr ''-0.25'', lon = JStr ''12'',
                                 display_name = JUndefined\<rparr>])\<rparr>
      else Resolved \<lparr>ok = False, status = 503, statusText = ''Service Unavailable'',
             json = Inl (Exception ''SyntaxError'' ''Unexpected end of JSON input''
                          ''SyntaxError: Unexpected end of JSON input at JSON.parse'')\<rparr>)"

definition sample_days :: "decimal jv list" where
  "sample_days =
     [JStr ''2025-12-15'', JStr ''2025-12-16'', JStr ''2025-12-17'', JStr ''2025-12-18'',
      JStr ''2025-12-19'', JStr ''2025-12-20'', JStr ''2025-12-21'', JStr ''2025-12-22'',
      JStr ''2025-12-23'', JStr ''2025-12-24'']"

definition sample_forecast_data :: "decimal forecast_data" where
  "sample_forecast_data =
     \<lparr>w_error = JUndefined, w_reason = JUndefined,
      w_hourly = Some \<lparr>h_time = Some [JStr ''2025-12-15T00:00''],
                        h_temperature_2m = Some [JNum (Dec (- 15) 1)],
                        h_relative_humidity_2m = Some [JNum (Dec 40 0)],
                        h_wind_speed_10m = Some [JNum (Dec 75 1)],
                        h_weather_code = Some [JNum (Dec 3 0)]\<rparr>,
      w_daily = Some \<lparr>d_time = Some sample_days,
                       d_temperature_2m_max = Some (replicate 10 (JNum (Dec 45 1))),
                       d_temperature_2m_min = Some (replicate 10 (JNum (Dec (- 25) 1))),
                       d_precipitation_sum = Some (replicate 10 (JNum (Dec 0 0))),
                       d_weather_code = Some (replicate 10 (JNum (Dec 71 0)))\<rparr>\<rparr>"

definition sample_forecast :: "request \<Rightarrow> decimal forecast_data fetch_outcome" where
  "sample_forecast req =
     Resolved \<lparr>ok = True, status = 200, statusText = ''OK'', json = Inr sample_forecast_data\<rparr>"


definition sample_provider :: "string \<Rightarrow> text_to_image_args \<Rightarrow> thrown + nat list" where
  "sample_provider token args =
     (if token = ''hf_sample'' then Inr [137, 80, 78, 71]
      else Inl (Exception ''InferenceClientProviderApiError''
                  ''Invalid credentials in Authorization header''
                  ''InferenceClientProviderApiError: Invalid credentials at innerRequest''))"

section \<open>Facts about the handlers\<close>

text \<open>The loop appends one block for each index from the counter up to the bound.\<close>

lemma daily_loop_closed:
  "daily_loop rt f ts mx mn pr cs i acc =
     acc @ concat (map (day_block rt ts mx mn pr cs (min f (length ts))) [i ..< min f (length ts)])"
proof (induction rt f ts mx mn pr cs i acc rule: daily_loop.induct)
  case (1 rt f ts mx mn pr cs i acc)
  let ?n = "min f (length ts)"
  show ?case
  proof (cases "i < ?n")
    case True
    have step: "daily_loop rt f ts mx mn pr cs i acc =
        daily_loop rt f ts mx mn pr cs (Suc i) (acc @ day_block rt ts mx mn pr cs ?n i)"
      by (subst daily_loop.simps) (simp only: True if_True)
    have range: "[i ..< ?n] = i # [Suc i ..< ?n]"
      using True by (rule upt_conv_Cons)
    have "daily_loop rt f ts mx mn pr cs (Suc i) (acc @ day_block rt ts mx mn pr cs ?n i) =
        (acc @ day_block rt ts mx mn pr cs ?n i)
        @ concat (map (day_block rt ts mx mn pr cs ?n) [Suc i ..< ?n])"
      using True by (rule "1.IH")
    then show ?thesis
      by (simp only: step range list.map concat.simps append_assoc)
  next
    case False
    have stop: "daily_loop rt f ts mx mn pr cs i acc = acc"
      by (subst daily_loop.simps) (simp only: False if_False)
    from False have "?n \<le> i"
      by (simp only: not_less)
    then have "[i ..< ?n] = []"
      by (simp only: upt_eq_Nil_conv simp_thms)
    then show ?thesis
      by (simp only: stop list.map concat.simps append_Nil2)
  qed
qed

lemma daily_forecast_closed:
  "w_daily_d = Some d \<Longrightarrow> d_time d = Some ts \<Longrightarrow>
     daily_forecast rt f w_daily_d acc = acc @ daily_heading f @ concat (day_blocks rt f d)"
  by (simp add: daily_forecast_def daily_loop_closed day_blocks_def daily_heading_def or_empty_def)

lemma get_weather_success:
  assumes "fetch (weather_request rt latitude longitude (forecast_days_or_default arg))
             = Resolved response"
    and "ok response" and "json response = Inr data" and "\<not> truthy rt (w_error data)"
  shows "get_weather rt fetch latitude longitude arg =
     Inr \<lparr>content =
            [Text (daily_forecast rt (forecast_days_or_default arg) (w_daily data)
                     (current_weather rt latitude longitude (forecast_days_or_default arg)
                        (w_hourly data)))],
          structuredContent =
            \<lparr>s_content =
               [Text (daily_forecast rt (forecast_days_or_default arg) (w_daily data)
                        (current_weather rt latitude longitude (forecast_days_or_default arg)
                           (w_hourly data)))]\<rparr>\<rparr>"
  using assms by (simp add: get_weather_def get_weather_try_def Let_def)

lemma day_block_text:
  "day_block rt dayTimes maxTemps minTemps precipitations codes bound i =
     to_locale_date_string rt (element_at dayTimes i) ''ko-KR''
       \<lparr>ld_month = ''short'', ld_day = ''numeric'', ld_weekday = ''short''\<rparr> @ [CHR 0x0A]
     @ max_label @ to_str rt (element_at maxTemps i) @ degrees_celsius
     @ min_label @ to_str rt (element_at minTemps i) @ degrees_celsius @ [CHR 0x0A]
     @ precipitation_label @ to_str rt (element_at precipitations i) @ ''mm'' @ [CHR 0x0A]
     @ ''  '' @ weather_label @ getWeatherDescription rt (element_at codes i) @ [CHR 0x0A]
     @ (if Suc i < bound then [CHR 0x0A] else [])"
  by (simp add: day_block_def Let_def)

lemma day_block_nonempty:
  "day_block rt dayTimes maxTemps minTemps precipitations codes bound i \<noteq> []"
  by (simp add: day_block_def Let_def)

lemma geocode_no_results:
  assumes "fetch (geocode_request query) = Resolved response" and "ok response"
    and "json response = Inr None \<or> json response = Inr (Some [])"
  shows "geocode rt fetch query = Inr (no_results query)"
  using assms by (auto simp: geocode_def geocode_try_def)

lemma geocode_first_result:
  assumes "fetch (geocode_request query) = Resolved response" and "ok response"
    and "json response = Inr (Some (result # rest))"
  shows "geocode rt fetch query =
     Inr \<lparr>content =
            [Text (address_label
                   @ (if truthy rt (display_name result) then to_str rt (display_name result)
                      else query) @ [CHR 0x0A]
                   @ latitude_label @ num_to_string rt (parse_float rt (to_str rt (lat result)))
                   @ [CHR 0x0A]
                   @ longitude_label @ num_to_string rt (parse_float rt (to_str rt (lon result)))
                   @ [CHR 0x0A]
                   @ coordinates_label
                   @ num_to_string rt (parse_float rt (to_str rt (lat result))) @ '', ''
                   @ num_to_string rt (parse_float rt (to_str rt (lon result))) @ '')'')],
          structuredContent =
            \<lparr>s_content =
               [Text (address_label
                      @ (if truthy rt (display_name result) then to_str rt (display_name result)
                         else query) @ [CHR 0x0A]
                      @ latitude_label
                      @ num_to_string rt (parse_float rt (to_str rt (lat result))) @ [CHR 0x0A]
                      @ longitude_label
                      @ num_to_string rt (parse_float rt (to_str rt (lon result))) @ [CHR 0x0A]
                      @ coordinates_label
                      @ num_to_string rt (parse_float rt (to_str rt (lat result))) @ '', ''
                      @ num_to_string rt (parse_float rt (to_str rt (lon result))) @ '')'')]\<rparr>\<rparr>"
  using assms by (simp add: geocode_def geocode_try_def Let_def)

lemma sublist_mid: "sublist x (a @ x @ b)"
  by (auto simp: sublist_def)

lemma geocode_try_envelope:
  "geocode_try rt fetch query = Inr r \<Longrightarrow> s_content (structuredContent r) = content r"
  by (auto simp: geocode_try_def no_results_def Let_def
           split: fetch_outcome.splits if_splits sum.splits option.splits list.splits)

lemma get_weather_try_envelope:
  "get_weather_try rt fetch latitude longitude forecast_days = Inr r \<Longrightarrow>
     s_content (structuredContent r) = content r"
  by (auto simp: get_weather_try_def Let_def
           split: fetch_outcome.splits if_splits sum.splits option.splits)

lemma generate_image_try_envelope:
  "fst (generate_image_try rt textToImage config prompt) = Inr r \<Longrightarrow>
     s_content (structuredContent r) = content r"
  by (auto simp: generate_image_try_def Let_def split: if_splits sum.splits option.splits)

lemma generate_image_success:
  "hfToken_of config = Some token \<Longrightarrow> token \<noteq> [] \<Longrightarrow>
   textToImage token (text_to_image_call prompt) = Inr bytes \<Longrightarrow>
     fst (generate_image rt textToImage config prompt)
       = Inr \<lparr>content = [Image (to_base64 rt bytes) ''image/png''],
              structuredContent = \<lparr>s_content = [Image (to_base64 rt bytes) ''image/png'']\<rparr>\<rparr>"
  by (simp add: generate_image_def generate_image_try_def Let_def)













lemma generate_image_with_token:
  "hfToken_of config = Some token \<Longrightarrow> token \<noteq> [] \<Longrightarrow>
     snd (generate_image rt textToImage config prompt)
       = [NewInferenceClient token, TextToImage (text_to_image_call prompt)]"
  by (simp add: generate_image_def generate_image_try_def Let_def split: sum.splits)



lemma invalid_timezone_message_structure:
  "\<not> operation_failed_structure invalid_timezone_message
   \<and> has_colon_separator invalid_timezone_message"
proof -
  have "\<not> sublist failed_colon invalid_timezone_message"
    by code_simp
  moreover have "sublist '': '' invalid_timezone_message"
    by code_simp
  ultimately show ?thesis
    by (simp add: operation_failed_structure_def has_colon_separator_def)
qed

section \<open>The response envelope\<close>

text \<open>
  Claim C1. For every tool call that returns a result (greet, calculator, time, geocode,
  get-weather, generate-image), the content sequence under \<open>structuredContent\<close> is equal,
  element for element, to the \<open>content\<close> sequence.
\<close>

theorem structured_content_equals_content:
  "s_content (structuredContent (greet name language)) = content (greet name language)
   \<and> (calculator rt number1 number2 operator = Inr r1
        \<longrightarrow> s_content (structuredContent r1) = content r1)
   \<and> (time rt timezone = Inr r2 \<longrightarrow> s_content (structuredContent r2) = content r2)
   \<and> (geocode rt fetch_places query = Inr r3
        \<longrightarrow> s_content (structuredContent r3) = content r3)
   \<and> (get_weather rt fetch_forecast latitude longitude forecast_days = Inr r4
        \<longrightarrow> s_content (structuredContent r4) = content r4)
   \<and> (fst (generate_image rt textToImage config prompt) = Inr r5
        \<longrightarrow> s_content (structuredContent r5) = content r5)"
proof -
  have g: "s_content (structuredContent (greet name language)) = content (greet name language)"
    by (simp add: greet_def Let_def)
  have c: "calculator rt number1 number2 operator = Inr r1
        \<longrightarrow> s_content (structuredContent r1) = content r1"
    by (auto simp: calculator_def Let_def split: sum.splits)
  have t: "time rt timezone = Inr r2 \<longrightarrow> s_content (structuredContent r2) = content r2"
    by (auto simp: time_def Let_def split: sum.splits)
  have ge: "geocode rt fetch_places query = Inr r3
        \<longrightarrow> s_content (structuredContent r3) = content r3"
    by (auto simp: geocode_def dest: geocode_try_envelope split: sum.splits)
  have w: "get_weather rt fetch_forecast latitude longitude forecast_days = Inr r4
        \<longrightarrow> s_content (structuredContent r4) = content r4"
    by (auto simp: get_weather_def dest: get_weather_try_envelope split: sum.splits)
  have i: "fst (generate_image rt textToImage config prompt) = Inr r5
        \<longrightarrow> s_content (structuredContent r5) = content r5"
    using generate_image_try_envelope [of rt textToImage config prompt r5]
    by (auto simp: generate_image_def split: sum.splits prod.splits)
  from g c t ge w i show ?thesis
    by blast
qed

theorem structured_content_equals_content_witness:
  "(\<exists>r. calculator sample_runtime (Dec 6 0) (Dec 4 0) Divide = Inr r
        \<and> s_content (structuredContent r) = content r)
   \<and> (\<exists>r. time sample_runtime ''Asia/Seoul'' = Inr r
          \<and> s_content (structuredContent r) = content r)
   \<and> (\<exists>r. geocode sample_runtime sample_search ''Seoul'' = Inr r
          \<and> s_content (structuredContent r) = content r)
   \<and> (\<exists>r. get_weather sample_runtime sample_forecast (Dec 375 1) (Dec 127 0) None = Inr r
          \<and> s_content (structuredContent r) = content r)
   \<and> (\<exists>r. fst (generate_image sample_runtime sample_provider
                   (Some \<lparr>HF_TOKEN = Some ''hf_sample''\<rparr>) ''a red kite'') = Inr r
          \<and> s_content (structuredContent r) = content r)"
proof -
  obtain r1 where r1: "calculator sample_runtime (Dec 6 0) (Dec 4 0) Divide = Inr r1"
    by (simp add: calculator_def sample_runtime_def Let_def)
  obtain r2 where r2: "time sample_runtime ''Asia/Seoul'' = Inr r2"
    by (simp add: time_def time_options_def sample_runtime_def sample_format_now_def Let_def)
  have "sample_search (geocode_request ''Seoul'')
      = Resolved \<lparr>ok = True, status = 200, statusText = ''OK'',
          json = Inr (Some [\<lparr>lat = JStr ''37.5'', lon = JStr ''127.0'',
                              display_name = JStr ''Seoul''\<rparr>])\<rparr>"
    by (simp add: sample_search_def geocode_request_def)
  then obtain r3 where r3: "geocode sample_runtime sample_search ''Seoul'' = Inr r3"
    using geocode_first_result [where fetch = sample_search and query = "''Seoul''"
        and rt = sample_runtime] by fastforce
  have "sample_forecast (weather_request sample_runtime (Dec 375 1) (Dec 127 0)
          (forecast_days_or_default None))
      = Resolved \<lparr>ok = True, status = 200, statusText = ''OK'',
          json = Inr sample_forecast_data\<rparr>"
    by (simp add: sample_forecast_def)
  moreover have "\<not> truthy sample_runtime (w_error sample_forecast_data)"
    by (simp add: sample_forecast_data_def)
  ultimately obtain r4 where
    r4: "get_weather sample_runtime sample_forecast (Dec 375 1) (Dec 127 0) None = Inr r4"
    using get_weather_success [where fetch = sample_forecast and rt = sample_runtime
        and latitude = "Dec 375 1" and longitude = "Dec 127 0" and arg = None
        and data = sample_forecast_data] by fastforce
  have "hfToken_of (Some \<lparr>HF_TOKEN = Some ''hf_sample''\<rparr>) = Some ''hf_sample''"
    by (simp add: hfToken_of_def)
  moreover have "sample_provider ''hf_sample'' (text_to_image_call ''a red kite'')
      = Inr [137, 80, 78, 71]"
    by (simp add: sample_provider_def)
  ultimately obtain r5 where
    r5: "fst (generate_image sample_runtime sample_provider
               (Some \<lparr>HF_TOKEN = Some ''hf_sample''\<rparr>) ''a red kite'') = Inr r5"
    using generate_image_success [where config = "Some \<lparr>HF_TOKEN = Some ''hf_sample''\<rparr>"
        and token = "''hf_sample''" and textToImage = sample_provider
        and prompt = "''a red kite''" and rt = sample_runtime] by simp
  from structured_content_equals_content [where rt = sample_runtime
      and ?number1.0 = "Dec 6 0" and ?number2.0 = "Dec 4 0" and operator = Divide and ?r1.0 = r1
      and timezone = "''Asia/Seoul''" and ?r2.0 = r2
      and fetch_places = sample_search and query = "''Seoul''" and ?r3.0 = r3
      and fetch_forecast = sample_forecast and latitude = "Dec 375 1"
      and longitude = "Dec 127 0" and forecast_days = None and ?r4.0 = r4
      and textToImage = sample_provider
      and config = "Some \<lparr>HF_TOKEN = Some ''hf_sample''\<rparr>" and prompt = "''a red kite''"
      and ?r5.0 = r5] r1 r2 r3 r4 r5
  show ?thesis
    by simp
qed

section \<open>Failure messages\<close>







section \<open>Properties of the calculator\<close>

text \<open>
  Claim C3. For every \<open>number1\<close>, the calculator called with the operator \<open>/\<close> and a
  \<open>number2\<close> that is zero (\<open>number2 === 0\<close>) fails with the division-by-zero error: the
  handler throws before it builds any result text.
\<close>

theorem calculator_division_by_zero:
  "num_is_zero rt number2 \<Longrightarrow>
     calculator rt number1 number2 Divide = Inl (Error division_by_zero_message)"
  by (simp add: calculator_def)

theorem calculator_division_by_zero_witness:
  "num_is_zero sample_runtime (Dec 0 0)
   \<and> calculator sample_runtime (Dec 5 0) (Dec 0 0) Divide = Inl (Error division_by_zero_message)"
proof -
  have zero: "num_is_zero sample_runtime (Dec 0 0)"
    by (simp add: sample_runtime_def)
  from calculator_division_by_zero [OF zero, of "Dec 5 0"] zero show ?thesis
    by simp
qed

text \<open>
  Claim C4. For every calculator input other than the operator \<open>/\<close> with a zero
  \<open>number2\<close>, the call succeeds and its single text item is
  \<open><number1> <operator> <number2> = <result>\<close>, the result being the value of the named
  arithmetic operation on the two numbers.
\<close>

theorem calculator_result_text:
  assumes "\<not> (operator = Divide \<and> num_is_zero rt number2)"
  shows "\<exists>r. calculator rt number1 number2 operator = Inr r
     \<and> content r =
         [Text (num_to_string rt number1 @ '' '' @ operator_text operator @ '' ''
                  @ num_to_string rt number2 @ '' = ''
                  @ num_to_string rt (named_operation rt operator number1 number2))]"
  using assms by (cases operator) (simp_all add: calculator_def Let_def)

theorem calculator_result_text_witness:
  "\<not> (Divide = Divide \<and> num_is_zero sample_runtime (Dec 4 0))
   \<and> (\<exists>r. calculator sample_runtime (Dec 6 0) (Dec 4 0) Divide = Inr r
          \<and> content r = [Text ''6 / 4 = 1.5''])"
proof -
  have nonzero: "\<not> (Divide = Divide \<and> num_is_zero sample_runtime (Dec 4 0))"
    by (simp add: sample_runtime_def)
  have shown: "num_to_string sample_runtime (Dec 6 0) @ '' '' @ operator_text Divide @ '' ''
      @ num_to_string sample_runtime (Dec 4 0) @ '' = ''
      @ num_to_string sample_runtime (named_operation sample_runtime Divide (Dec 6 0) (Dec 4 0))
      = ''6 / 4 = 1.5''"
    by code_simp
  from calculator_result_text [OF nonzero, of "Dec 6 0"] nonzero shown show ?thesis
    by simp
qed

section \<open>Properties of the time tool\<close>

text \<open>
  What the handler itself decides. When the formatter throws for the given timezone, whatever
  it throws, the time tool fails with the invalid-timezone message followed by the timezone.
  When the formatter returns a text, the tool succeeds and its single text item is the
  timezone, the label \<open>current_time_label\<close> and that text unchanged. Which timezones the
  formatter accepts and which separators its text has are decided by the runtime's
  \<open>Intl.DateTimeFormat\<close> and its data for the locale \<open>ko-KR\<close>; the handler fixes only the
  locale and the field options, and adds no separator of its own.
\<close>

lemma time_result:
  "(format_now rt ''ko-KR'' (time_options timezone) = Inl e \<longrightarrow>
      time rt timezone = Inl (Error (invalid_timezone_message @ timezone)))
   \<and> (format_now rt ''ko-KR'' (time_options timezone) = Inr formattedTime \<longrightarrow>
        time rt timezone
          = Inr \<lparr>content = [Text (timezone @ current_time_label @ formattedTime)],
                 structuredContent =
                   \<lparr>s_content = [Text (timezone @ current_time_label @ formattedTime)]\<rparr>\<rparr>)"
  by (simp add: time_def Let_def)

lemma time_result_sample:
  "format_now sample_runtime ''ko-KR'' (time_options ''Not/AZone'')
     = Inl (Exception ''RangeError'' ''Invalid time zone specified: Not/AZone''
              ''RangeError: Invalid time zone specified at new DateTimeFormat'')
   \<and> time sample_runtime ''Not/AZone'' = Inl (Error (invalid_timezone_message @ ''Not/AZone''))
   \<and> format_now sample_runtime ''ko-KR'' (time_options ''UTC'') = Inr ''2025. 12. 15. 00:30:05''
   \<and> time sample_runtime ''UTC''
       = Inr \<lparr>content = [Text (''UTC'' @ current_time_label @ ''2025. 12. 15. 00:30:05'')],
              structuredContent =
                \<lparr>s_content =
                   [Text (''UTC'' @ current_time_label @ ''2025. 12. 15. 00:30:05'')]\<rparr>\<rparr>"
proof -
  have bad: "format_now sample_runtime ''ko-KR'' (time_options ''Not/AZone'')
      = Inl (Exception ''RangeError'' ''Invalid time zone specified: Not/AZone''
              ''RangeError: Invalid time zone specified at new DateTimeFormat'')"
    by (simp add: sample_runtime_def sample_format_now_def time_options_def)
  have good: "format_now sample_runtime ''ko-KR'' (time_options ''UTC'')
      = Inr ''2025. 12. 15. 00:30:05''"
    by (simp add: sample_runtime_def sample_format_now_def time_options_def)
  from time_result [where rt = sample_runtime and timezone = "''Not/AZone''"
      and e = "Exception ''RangeError'' ''Invalid time zone specified: Not/AZone''
              ''RangeError: Invalid time zone specified at new DateTimeFormat''"]
    time_result [where rt = sample_runtime and timezone = "''UTC''"
      and formattedTime = "''2025. 12. 15. 00:30:05''"] bad good
  show ?thesis
    by simp
qed

section \<open>Properties of geocode\<close>

text \<open>
  Claim C6. When the search call succeeds with an empty array, geocode returns a result (it
  does not fail) whose single text item is the no-results message, which contains the query.
  When the first element of the array has \<open>lat\<close>, \<open>lon\<close> and a \<open>display_name\<close>, the
  message contains the parsed latitude, the parsed longitude and the display name.
\<close>

theorem geocode_result_text:
  assumes "fetch (geocode_request query) = Resolved response" and "ok response"
  shows "(json response = Inr (Some []) \<longrightarrow>
            (\<exists>r t. geocode rt fetch query = Inr r \<and> content r = [Text t]
               \<and> t = [CHR 0x22] @ query @ [CHR 0x22] @ no_results_message
               \<and> sublist query t))
       \<and> (json response = Inr (Some (result # rest)) \<and> display_name result = JStr name \<longrightarrow>
            (\<exists>r t. geocode rt fetch query = Inr r \<and> content r = [Text t]
               \<and> sublist (num_to_string rt (parse_float rt (to_str rt (lat result)))) t
               \<and> sublist (num_to_string rt (parse_float rt (to_str rt (lon result)))) t
               \<and> sublist name t))"
proof (intro conjI impI)
  assume "json response = Inr (Some [])"
  then have "geocode rt fetch query = Inr (no_results query)"
    using assms by (simp add: geocode_no_results)
  moreover have "sublist query ([CHR 0x22] @ query @ [CHR 0x22] @ no_results_message)"
    by (rule sublist_mid)
  ultimately show "\<exists>r t. geocode rt fetch query = Inr r \<and> content r = [Text t]
               \<and> t = [CHR 0x22] @ query @ [CHR 0x22] @ no_results_message
               \<and> sublist query t"
    by (simp add: no_results_def)
next
  assume a: "json response = Inr (Some (result # rest)) \<and> display_name result = JStr name"
  let ?la = "num_to_string rt (parse_float rt (to_str rt (lat result)))"
  let ?lo = "num_to_string rt (parse_float rt (to_str rt (lon result)))"
  let ?dn = "if truthy rt (display_name result) then to_str rt (display_name result) else query"
  let ?t = "address_label @ ?dn @ [CHR 0x0A] @ latitude_label @ ?la @ [CHR 0x0A]
            @ longitude_label @ ?lo @ [CHR 0x0A] @ coordinates_label @ ?la @ '', '' @ ?lo @ '')''"
  have r: "geocode rt fetch query =
      Inr \<lparr>content = [Text ?t], structuredContent = \<lparr>s_content = [Text ?t]\<rparr>\<rparr>"
    using geocode_first_result [of fetch query response result rest rt] assms a by simp
  have la: "sublist ?la ?t"
    using sublist_mid [of ?la "address_label @ ?dn @ [CHR 0x0A] @ latitude_label"] by simp
  have lo: "sublist ?lo ?t"
    using sublist_mid [of ?lo "address_label @ ?dn @ [CHR 0x0A] @ latitude_label @ ?la
        @ [CHR 0x0A] @ longitude_label"] by simp
  have "sublist ?dn ?t"
    by (rule sublist_mid)
  moreover have "name = [] \<or> ?dn = name"
    using a by simp
  ultimately have dn: "sublist name ?t"
    by auto
  from r la lo dn
  show "\<exists>r t. geocode rt fetch query = Inr r \<and> content r = [Text t]
               \<and> sublist (num_to_string rt (parse_float rt (to_str rt (lat result)))) t
               \<and> sublist (num_to_string rt (parse_float rt (to_str rt (lon result)))) t
               \<and> sublist name t"
    by simp
qed


theorem geocode_result_text_witness:
  "sample_search (geocode_request ''Atlantis'')
     = Resolved \<lparr>ok = True, status = 200, statusText = ''OK'', json = Inr (Some [])\<rparr>
   \<and> (\<exists>r t. geocode sample_runtime sample_search ''Atlantis'' = Inr r \<and> content r = [Text t]
          \<and> sublist ''Atlantis'' t)
   \<and> sample_search (geocode_request ''Seoul'')
     = Resolved \<lparr>ok = True, status = 200, statusText = ''OK'',
         json = Inr (Some [\<lparr>lat = JStr ''37.5'', lon = JStr ''127.0'',
                             display_name = JStr ''Seoul''\<rparr>])\<rparr>
   \<and> (\<exists>r t. geocode sample_runtime sample_search ''Seoul'' = Inr r \<and> content r = [Text t]
          \<and> sublist ''37.5'' t \<and> sublist ''127'' t \<and> sublist ''Seoul'' t)"
proof -
  let ?empty = "\<lparr>ok = True, status = 200, statusText = ''OK'',
                  json = Inr (Some ([] :: decimal place list))\<rparr>"
  let ?place = "\<lparr>lat = JStr ''37.5'', lon = JStr ''127.0'', display_name = JStr ''Seoul''\<rparr>
                  :: decimal place"
  let ?found = "\<lparr>ok = True, status = 200, statusText = ''OK'', json = Inr (Some [?place])\<rparr>"
  have f1: "sample_search (geocode_request ''Atlantis'') = Resolved ?empty"
    by (simp add: sample_search_def geocode_request_def)
  have f2: "sample_search (geocode_request ''Seoul'') = Resolved ?found"
    by (simp add: sample_search_def geocode_request_def)
  have la: "num_to_string sample_runtime
              (parse_float sample_runtime (to_str sample_runtime (lat ?place))) = ''37.5''"
    by code_simp
  have lo: "num_to_string sample_runtime
              (parse_float sample_runtime (to_str sample_runtime (lon ?place))) = ''127''"
    by code_simp
  have a: "\<exists>r t. geocode sample_runtime sample_search ''Atlantis'' = Inr r
             \<and> content r = [Text t] \<and> sublist ''Atlantis'' t"
    using geocode_result_text [where fetch = sample_search and query = "''Atlantis''"
        and response = ?empty and rt = sample_runtime, OF f1] by auto
  have b: "\<exists>r t. geocode sample_runtime sample_search ''Seoul'' = Inr r \<and> content r = [Text t]
          \<and> sublist ''37.5'' t \<and> sublist ''127'' t \<and> sublist ''Seoul'' t"
    using geocode_result_text [where fetch = sample_search and query = "''Seoul''"
        and response = ?found and rt = sample_runtime and result = ?place and rest = "[]"
        and name = "''Seoul''", OF f2] la lo by auto
  from f1 a f2 b show ?thesis
    by blast
qed

text \<open>
  Claim C10. When the first element of a non-empty result array has no \<open>display_name\<close>
  (the field is absent or the empty string), geocode still succeeds, the address line shows
  the query in its place, and the parsed latitude and longitude are shown as usual.
\<close>

theorem geocode_missing_display_name:
  assumes "fetch (geocode_request query) = Resolved response" and "ok response"
    and "json response = Inr (Some (result # rest))"
    and "display_name result = JUndefined \<or> display_name result = JStr []"
  shows "\<exists>r. geocode rt fetch query = Inr r
     \<and> content r =
         [Text (address_label @ query @ [CHR 0x0A]
                @ latitude_label @ num_to_string rt (parse_float rt (to_str rt (lat result)))
                @ [CHR 0x0A]
                @ longitude_label @ num_to_string rt (parse_float rt (to_str rt (lon result)))
                @ [CHR 0x0A]
                @ coordinates_label
                @ num_to_string rt (parse_float rt (to_str rt (lat result))) @ '', ''
                @ num_to_string rt (parse_float rt (to_str rt (lon result))) @ '')'')]"
proof -
  have "\<not> truthy rt (display_name result)"
    using assms(4) by auto
  then show ?thesis
    using geocode_first_result [of fetch query response result rest rt, OF assms(1-3)] by simp
qed

theorem geocode_missing_display_name_witness:
  "sample_search (geocode_request ''Nowhere'')
     = Resolved \<lparr>ok = True, status = 200, statusText = ''OK'',
         json = Inr (Some [\<lparr>lat = JStr ''-0.25'', lon = JStr ''12'',
                             display_name = JUndefined\<rparr>])\<rparr>
   \<and> (\<exists>r. geocode sample_runtime sample_search ''Nowhere'' = Inr r
          \<and> content r =
              [Text (address_label @ ''Nowhere'' @ [CHR 0x0A]
                     @ latitude_label @ ''-0.25'' @ [CHR 0x0A]
                     @ longitude_label @ ''12'' @ [CHR 0x0A]
                     @ coordinates_label @ ''-0.25, 12)'')])"
proof -
  let ?place = "\<lparr>lat = JStr ''-0.25'', lon = JStr ''12'', display_name = JUndefined\<rparr>
                  :: decimal place"
  let ?found = "\<lparr>ok = True, status = 200, statusText = ''OK'', json = Inr (Some [?place])\<rparr>"
  have f: "sample_search (geocode_request ''Nowhere'') = Resolved ?found"
    by (simp add: sample_search_def geocode_request_def)
  have ok: "ok ?found" and js: "json ?found = Inr (Some (?place # []))"
    and dn: "display_name ?place = JUndefined \<or> display_name ?place = JStr []"
    by simp_all
  have la: "num_to_string sample_runtime
              (parse_float sample_runtime (to_str sample_runtime (lat ?place))) = ''-0.25''"
    by code_simp
  have lo: "num_to_string sample_runtime
              (parse_float sample_runtime (to_str sample_runtime (lon ?place))) = ''12''"
    by code_simp
  from geocode_missing_display_name [where fetch = sample_search and query = "''Nowhere''"
      and response = ?found and rt = sample_runtime and result = ?place and rest = "[]",
      OF f ok js dn] f la lo
  show ?thesis
    by simp
qed

section \<open>Properties of the weather forecast\<close>

text \<open>
  Claim C7. For every successful get-weather call where the (defaulted) \<open>forecast_days\<close> is
  \<open>f\<close> and the response carries a \<open>daily.time\<close> array of length \<open>d\<close>, the text is the
  current conditions, the heading of the daily part and then exactly \<open>min f d\<close> per-day
  blocks and nothing more. Block \<open>i\<close> is not empty: it is the localized date of day \<open>i\<close>,
  the line of the maximum and minimum temperature, the line of the precipitation and the line
  of the weather description, and a blank line unless it is the last block. Three days
  requested of ten available give three blocks.
\<close>

theorem weather_day_blocks:
  assumes "fetch (weather_request rt latitude longitude (forecast_days_or_default arg))
             = Resolved response"
    and "ok response" and "json response = Inr data" and "\<not> truthy rt (w_error data)"
    and "w_daily data = Some d" and "d_time d = Some dayTimes"
  shows "\<exists>blocks.
     (\<exists>r. get_weather rt fetch latitude longitude arg = Inr r
          \<and> content r =
              [Text (current_weather rt latitude longitude (forecast_days_or_default arg)
                       (w_hourly data)
                     @ daily_heading (forecast_days_or_default arg)
                     @ concat blocks)])
     \<and> length blocks = min (forecast_days_or_default arg) (length dayTimes)
     \<and> (\<forall>i < length blocks.
           blocks ! i \<noteq> []
           \<and> blocks ! i =
               to_locale_date_string rt (element_at dayTimes i) ''ko-KR''
                 \<lparr>ld_month = ''short'', ld_day = ''numeric'', ld_weekday = ''short''\<rparr>
               @ [CHR 0x0A]
               @ max_label @ to_str rt (element_at (or_empty (d_temperature_2m_max d)) i)
               @ degrees_celsius
               @ min_label @ to_str rt (element_at (or_empty (d_temperature_2m_min d)) i)
               @ degrees_celsius @ [CHR 0x0A]
               @ precipitation_label
               @ to_str rt (element_at (or_empty (d_precipitation_sum d)) i) @ ''mm''
               @ [CHR 0x0A]
               @ ''  '' @ weather_label
               @ getWeatherDescription rt (element_at (or_empty (d_weather_code d)) i)
               @ [CHR 0x0A]
               @ (if Suc i < min (forecast_days_or_default arg) (length dayTimes)
                  then [CHR 0x0A] else []))"
proof -
  let ?f = "forecast_days_or_default arg"
  let ?blocks = "day_blocks rt ?f d"
  have len: "length ?blocks = min ?f (length dayTimes)"
    using assms(6) by (simp add: day_blocks_def or_empty_def)
  have closed: "daily_forecast rt ?f (w_daily data)
        (current_weather rt latitude longitude ?f (w_hourly data))
      = current_weather rt latitude longitude ?f (w_hourly data)
        @ daily_heading ?f @ concat ?blocks"
    using assms(5,6) by (rule daily_forecast_closed)
  have result: "\<exists>r. get_weather rt fetch latitude longitude arg = Inr r
      \<and> content r = [Text (current_weather rt latitude longitude ?f (w_hourly data)
                            @ daily_heading ?f @ concat ?blocks)]"
    using get_weather_success [of fetch rt latitude longitude arg response data, OF assms(1-4)]
      closed by simp
  have each: "\<forall>i < length ?blocks.
      ?blocks ! i \<noteq> []
      \<and> ?blocks ! i =
          to_locale_date_string rt (element_at dayTimes i) ''ko-KR''
            \<lparr>ld_month = ''short'', ld_day = ''numeric'', ld_weekday = ''short''\<rparr>
          @ [CHR 0x0A]
          @ max_label @ to_str rt (element_at (or_empty (d_temperature_2m_max d)) i)
          @ degrees_celsius
          @ min_label @ to_str rt (element_at (or_empty (d_temperature_2m_min d)) i)
          @ degrees_celsius @ [CHR 0x0A]
          @ precipitation_label
          @ to_str rt (element_at (or_empty (d_precipitation_sum d)) i) @ ''mm''
          @ [CHR 0x0A]
          @ ''  '' @ weather_label
          @ getWeatherDescription rt (element_at (or_empty (d_weather_code d)) i)
          @ [CHR 0x0A]
          @ (if Suc i < min ?f (length dayTimes) then [CHR 0x0A] else [])"
  proof (intro allI impI)
    fix i
    assume "i < length ?blocks"
    then have i: "i < min ?f (length dayTimes)"
      using len by simp
    then have "?blocks ! i =
        day_block rt dayTimes (or_empty (d_temperature_2m_max d))
          (or_empty (d_temperature_2m_min d)) (or_empty (d_precipitation_sum d))
          (or_empty (d_weather_code d)) (min ?f (length dayTimes)) i"
      using assms(6) by (simp add: day_blocks_def or_empty_def del: min_less_iff_conj)
    then show "?blocks ! i \<noteq> []
      \<and> ?blocks ! i =
          to_locale_date_string rt (element_at dayTimes i) ''ko-KR''
            \<lparr>ld_month = ''short'', ld_day = ''numeric'', ld_weekday = ''short''\<rparr>
          @ [CHR 0x0A]
          @ max_label @ to_str rt (element_at (or_empty (d_temperature_2m_max d)) i)
          @ degrees_celsius
          @ min_label @ to_str rt (element_at (or_empty (d_temperature_2m_min d)) i)
          @ degrees_celsius @ [CHR 0x0A]
          @ precipitation_label
          @ to_str rt (element_at (or_empty (d_precipitation_sum d)) i) @ ''mm''
          @ [CHR 0x0A]
          @ ''  '' @ weather_label
          @ getWeatherDescription rt (element_at (or_empty (d_weather_code d)) i)
          @ [CHR 0x0A]
          @ (if Suc i < min ?f (length dayTimes) then [CHR 0x0A] else [])"
      using day_block_nonempty [of rt dayTimes "or_empty (d_temperature_2m_max d)"
          "or_empty (d_temperature_2m_min d)" "or_empty (d_precipitation_sum d)"
          "or_empty (d_weather_code d)" "min ?f (length dayTimes)" i]
      by (simp only: day_block_text) simp
  qed
  from result len each show ?thesis
    by blast
qed


theorem weather_day_blocks_witness:
  "sample_forecast (weather_request sample_runtime (Dec 375 1) (Dec 127 0)
      (forecast_days_or_default (Some 3)))
     = Resolved \<lparr>ok = True, status = 200, statusText = ''OK'', json = Inr sample_forecast_data\<rparr>
   \<and> \<not> truthy sample_runtime (w_error sample_forecast_data)
   \<and> length sample_days = 10
   \<and> (\<exists>blocks r t.
         get_weather sample_runtime sample_forecast (Dec 375 1) (Dec 127 0) (Some 3) = Inr r
         \<and> content r = [Text t]
         \<and> t = current_weather sample_runtime (Dec 375 1) (Dec 127 0) 3
                 (w_hourly sample_forecast_data)
               @ daily_heading 3 @ concat blocks
         \<and> length blocks = 3
         \<and> (\<forall>b \<in> set blocks. b \<noteq> [])
         \<and> occurrences max_label t = 3)"
proof -
  let ?d = "\<lparr>d_time = Some sample_days,
         d_temperature_2m_max = Some (replicate 10 (JNum (Dec 45 1))),
         d_temperature_2m_min = Some (replicate 10 (JNum (Dec (- 25) 1))),
         d_precipitation_sum = Some (replicate 10 (JNum (Dec 0 0))),
         d_weather_code = Some (replicate 10 (JNum (Dec 71 0)))\<rparr>"
  let ?resp = "\<lparr>ok = True, status = 200, statusText = ''OK'', json = Inr sample_forecast_data\<rparr>"
  let ?shown = "daily_forecast sample_runtime 3 (w_daily sample_forecast_data)
      (current_weather sample_runtime (Dec 375 1) (Dec 127 0) 3 (w_hourly sample_forecast_data))"
  have f: "sample_forecast (weather_request sample_runtime (Dec 375 1) (Dec 127 0)
      (forecast_days_or_default (Some 3))) = Resolved ?resp"
    by (simp add: sample_forecast_def)
  have ok: "ok ?resp" and js: "json ?resp = Inr sample_forecast_data"
    by simp_all
  have e: "\<not> truthy sample_runtime (w_error sample_forecast_data)"
    by (simp add: sample_forecast_data_def)
  have d: "w_daily sample_forecast_data = Some ?d"
    by (simp add: sample_forecast_data_def)
  have t: "d_time ?d = Some sample_days"
    by simp
  have l: "length sample_days = 10"
    by (simp add: sample_days_def)
  have n: "forecast_days_or_default (Some 3) = 3"
    by (simp add: forecast_days_or_default_def)
  have counted: "occurrences max_label ?shown = 3"
    by code_simp
  have shown: "get_weather sample_runtime sample_forecast (Dec 375 1) (Dec 127 0) (Some 3)
      = Inr \<lparr>content = [Text ?shown], structuredContent = \<lparr>s_content = [Text ?shown]\<rparr>\<rparr>"
    using get_weather_success [of sample_forecast sample_runtime "Dec 375 1" "Dec 127 0"
        "Some 3" ?resp sample_forecast_data, OF f ok js e] n by simp
  from weather_day_blocks [of sample_forecast sample_runtime "Dec 375 1" "Dec 127 0" "Some 3"
      ?resp sample_forecast_data ?d sample_days, OF f ok js e d t]
  obtain blocks r where
    r: "get_weather sample_runtime sample_forecast (Dec 375 1) (Dec 127 0) (Some 3) = Inr r"
    and c: "content r = [Text (current_weather sample_runtime (Dec 375 1) (Dec 127 0) 3
                (w_hourly sample_forecast_data) @ daily_heading 3 @ concat blocks)]"
    and len: "length blocks = 3"
    and each: "\<forall>i < length blocks. blocks ! i \<noteq> []"
    using n l by auto
  from each have nonempty: "\<forall>b \<in> set blocks. b \<noteq> []"
    by (auto simp: in_set_conv_nth)
  from r c shown have "?shown = current_weather sample_runtime (Dec 375 1) (Dec 127 0) 3
      (w_hourly sample_forecast_data) @ daily_heading 3 @ concat blocks"
    by simp
  with counted have "occurrences max_label (current_weather sample_runtime (Dec 375 1)
      (Dec 127 0) 3 (w_hourly sample_forecast_data) @ daily_heading 3 @ concat blocks) = 3"
    by simp
  with r c len nonempty f e l show ?thesis
    by blast
qed

section \<open>Properties of generate-image\<close>

text \<open>
  Claim C8. When the configuration carries no \<open>HF_TOKEN\<close>, generate-image fails with the
  missing-token message (under the prefix of its \<open>catch\<close>) and the trace of calls is empty:
  no inference client was constructed and no request was issued.
\<close>

theorem generate_image_without_token:
  "hfToken_of config = None \<Longrightarrow>
     generate_image rt textToImage config prompt
       = (Inl (Error (image_generation_failed @ missing_token_message)), [])"
  by (simp add: generate_image_def generate_image_try_def)

theorem generate_image_without_token_witness:
  "hfToken_of (Some \<lparr>HF_TOKEN = None\<rparr>) = None
   \<and> generate_image sample_runtime sample_provider (Some \<lparr>HF_TOKEN = None\<rparr>) ''a red kite''
       = (Inl (Error (image_generation_failed @ missing_token_message)), [])"
proof -
  have absent: "hfToken_of (Some \<lparr>HF_TOKEN = None\<rparr>) = None"
    by (simp add: hfToken_of_def)
  from generate_image_without_token [OF absent, where rt = sample_runtime
      and textToImage = sample_provider and prompt = "''a red kite''"]
    absent
  show ?thesis
    by simp
qed

section \<open>Properties of server-info\<close>

text \<open>
  Claim C9. The listing has six tools, as many as are registered and under the same names in
  the same order, and \<open>totalTools\<close> is 6. The per-field metadata agrees with the input
  contracts except in one place: the contract of \<open>forecast_days\<close> of get-weather declares an
  integer (\<open>.int()\<close>, line 295), and the listing (lines 612-619) does not advertise it.
\<close>

theorem server_info_drift:
  "length (si_tools (serverInfo timestamp)) = length registered_tools
   \<and> si_totalTools (serverInfo timestamp) = 6
   \<and> map t_name (si_tools (serverInfo timestamp)) = map fst registered_tools
   \<and> tool_drift registered_tools (si_tools (serverInfo timestamp))
       = [Missing ''get-weather'' ''forecast_days'' IsInteger]"
  by (simp add: registered_tools_def serverInfo_def greet_inputSchema_def
      calculator_inputSchema_def time_inputSchema_def geocode_inputSchema_def
      get_weather_inputSchema_def generate_image_inputSchema_def z_string_def z_number_def
      z_enum_def z_int_def z_min_def z_max_def z_optional_def z_default_def of_type_def
      contract_constraints_def listing_constraints_def)

end
